theory Spec2Isabelle
  imports Main "HOL-Library.Sublist" "HOL-Library.Multiset"
begin

section \<open>Data model (packages/core/src/types.ts)\<close>

text \<open>
  \<open>JobState\<close> is the four-valued enumeration of \<open>types.ts\<close>. A \<open>Job\<close> carries the
  fields of the interface of the same name. Numbers are modelled as integers:
  \<open>id\<close> and \<open>priority\<close> are integer columns, and \<open>createdAt\<close>/\<open>updatedAt\<close> stand for
  \<open>Date.getTime()\<close>, the milliseconds since the epoch. \<open>errorMessage\<close> has the three
  shapes the code distinguishes: absent (\<open>undefined\<close>), SQL \<open>NULL\<close> (\<open>null\<close>, as the
  drivers return it) and a string.
\<close>

datatype JobState = waiting | active | completed | failed

datatype errmsg = Undefined | Null | Str string

record 'p Job =
  job_id :: int
  payload :: 'p
  state :: JobState
  priority :: int
  errorMessage :: errmsg
  createdAt :: int
  updatedAt :: int

section \<open>The job comparator (packages/core/src/test-utils/compareJobs.ts)\<close>

definition compareJobs :: "'p Job \<Rightarrow> 'p Job \<Rightarrow> int" where
  "compareJobs a b =
     (if priority a \<noteq> priority b then priority b - priority a
      else if createdAt a \<noteq> createdAt b then createdAt a - createdAt b
      else job_id a - job_id b)"

text \<open>The dequeue order of the specification, written out from its three lines.\<close>

definition dequeue_before :: "'p Job \<Rightarrow> 'p Job \<Rightarrow> bool" where
  "dequeue_before a b \<longleftrightarrow>
     priority a > priority b
     \<or> (priority a = priority b \<and> createdAt a < createdAt b)
     \<or> (priority a = priority b \<and> createdAt a = createdAt b \<and> job_id a < job_id b)"

section \<open>Errors (AbstractDatabasePoolClient.ts, utils/normalizeError.ts, utils/retry.ts)\<close>

text \<open>
  An \<open>Error\<close> object is its class and its message. \<open>instanceof\<close> follows the class
  hierarchy: every class extends \<open>Error\<close>, and \<open>AcquirableJobNotFoundError\<close> extends
  \<open>JobNotFoundError\<close>. JavaScript can throw any value: a thrown value is either an
  \<open>Error\<close> object or some other value, of which only \<open>String(value)\<close> is ever used.
\<close>

datatype error_class =
  ErrorClass | TypeErrorClass | JobNotFoundErrorClass | AcquirableJobNotFoundErrorClass
  | MaxRetriesErrorClass

record error =
  error_class :: error_class
  message :: string

definition instanceof :: "error \<Rightarrow> error_class \<Rightarrow> bool" where
  "instanceof e c \<longleftrightarrow>
     c = ErrorClass \<or> error_class e = c
     \<or> (error_class e = AcquirableJobNotFoundErrorClass \<and> c = JobNotFoundErrorClass)"

datatype thrown = ThrownError error | ThrownValue string

definition new_Error :: "string \<Rightarrow> error" where
  "new_Error m = \<lparr>error_class = ErrorClass, message = m\<rparr>"

definition normalizeError :: "thrown \<Rightarrow> error" where
  "normalizeError t = (case t of ThrownError e \<Rightarrow> e | ThrownValue s \<Rightarrow> new_Error s)"

text \<open>
  The template literals of the error messages render a number in decimal, with a
  leading minus sign for a negative one (\<open>Number::toString\<close> on an integer).
\<close>

fun string_of_nat :: "nat \<Rightarrow> string" where
  "string_of_nat n =
     (if n < 10 then [''0123456789'' ! n]
      else string_of_nat (n div 10) @ [''0123456789'' ! (n mod 10)])"

declare string_of_nat.simps [simp del]

definition number_to_string :: "int \<Rightarrow> string" where
  "number_to_string n =
     (if n < 0 then ''-'' @ string_of_nat (nat (- n)) else string_of_nat (nat n))"

definition MaxRetriesError :: "int \<Rightarrow> error \<Rightarrow> error" where
  "MaxRetriesError retries e =
     \<lparr>error_class = MaxRetriesErrorClass,
      message = ''Function failed after '' @ number_to_string retries @ '' retries: '' @ message e\<rparr>"

text \<open>
  \<open>JobNotFoundError\<close> is constructed with the details \<open>{ id }\<close> by the update
  operations and, as \<open>AcquirableJobNotFoundError\<close>, with \<open>{ state: 'waiting' }\<close>; the
  message carries \<open>JSON.stringify(details)\<close>. \<open>TypeError\<close> is what the runtime throws on
  a property read of \<open>undefined\<close>.
\<close>

definition JobNotFoundError_id :: "int \<Rightarrow> error" where
  "JobNotFoundError_id i =
     \<lparr>error_class = JobNotFoundErrorClass,
      message = ''Couldn't find any job with details: {'' @ [CHR 0x22] @ ''id'' @ [CHR 0x22]
                @ '':'' @ number_to_string i @ ''}''\<rparr>"

definition AcquirableJobNotFoundError :: error where
  "AcquirableJobNotFoundError =
     \<lparr>error_class = AcquirableJobNotFoundErrorClass,
      message = ''Couldn't find any job with details: {'' @ [CHR 0x22] @ ''state'' @ [CHR 0x22]
                @ '':'' @ [CHR 0x22] @ ''waiting'' @ [CHR 0x22] @ ''}''\<rparr>"

definition TypeError :: "string \<Rightarrow> error" where
  "TypeError m = \<lparr>error_class = TypeErrorClass, message = m\<rparr>"

section \<open>The retry utility (utils/retry.ts)\<close>

text \<open>
  The function handed to \<open>retry\<close> takes no argument and may behave differently on each
  call; it is modelled by the outcome of each of its calls, \<open>fn k\<close> being the outcome of
  the call made after \<open>k\<close> earlier ones (\<open>Inl\<close> a thrown value, \<open>Inr\<close> a result). The
  effects of a run are the number of calls made and the sleeps (\<open>setTimeout\<close>) taken.
  \<open>attempt\<close> is the inner function of \<open>retry\<close>, with the same case order.
\<close>

record retry_effects =
  calls :: nat
  sleeps :: "int list"

function attempt ::
  "(nat \<Rightarrow> thrown + 'r) \<Rightarrow> int \<Rightarrow> int \<Rightarrow> int \<Rightarrow> retry_effects \<Rightarrow> (error + 'r) \<times> retry_effects" where
  "attempt fn maxRetries delayInterval currentAttempt w =
     (let w1 = w\<lparr>calls := calls w + 1\<rparr> in
      case fn (calls w) of
        Inr r \<Rightarrow> (Inr r, w1)
      | Inl err \<Rightarrow>
          if currentAttempt \<ge> maxRetries
          then (Inl (MaxRetriesError maxRetries (normalizeError err)), w1)
          else attempt fn maxRetries delayInterval (currentAttempt + 1)
                 (if delayInterval > 0 then w1\<lparr>sleeps := sleeps w1 @ [delayInterval]\<rparr> else w1))"
  by pat_completeness auto
termination
  by (relation "measure (\<lambda>(f, m, d, c, w). nat (m - c))") auto

declare attempt.simps [simp del]

definition retry :: "(nat \<Rightarrow> thrown + 'r) \<Rightarrow> int \<Rightarrow> int \<Rightarrow> (error + 'r) \<times> retry_effects" where
  "retry fn maxRetries delayInterval =
     attempt fn maxRetries delayInterval 1 \<lparr>calls = 0, sleeps = []\<rparr>"


text \<open>
  \<open>mockFunction\<close> of \<open>__tests__/utils.spec.ts\<close>: fails on its first \<open>shouldFailTimes\<close>
  calls with \<open>Error("Fail <call number>")\<close>, then returns \<open>'Success'\<close>.
\<close>

definition mockFunction :: "nat \<Rightarrow> nat \<Rightarrow> thrown + string" where
  "mockFunction shouldFailTimes k =
     (if k + 1 \<le> shouldFailTimes
      then Inl (ThrownError (new_Error (''Fail '' @ number_to_string (int (k + 1)))))
      else Inr ''Success'')"

section \<open>Sorting by a comparator, updating the first match\<close>

text \<open>
  \<open>sort_by_comparator\<close> is \<open>Array.prototype.sort\<close> with a comparator (negative: first
  argument first) and \<open>ORDER BY\<close> over a key list: a stable sort, here by insertion. With
  a consistent comparator the result of a stable sort does not depend on the algorithm.
  \<open>update_first\<close> changes the first element that satisfies a predicate, as an assignment
  to the object that \<open>Array.prototype.find\<close> returned does.
\<close>

fun insort_cmp :: "('a \<Rightarrow> 'a \<Rightarrow> int) \<Rightarrow> 'a \<Rightarrow> 'a list \<Rightarrow> 'a list" where
  "insort_cmp cmp x [] = [x]"
| "insort_cmp cmp x (y # ys) =
     (if cmp x y \<le> 0 then x # y # ys else y # insort_cmp cmp x ys)"

definition sort_by_comparator :: "('a \<Rightarrow> 'a \<Rightarrow> int) \<Rightarrow> 'a list \<Rightarrow> 'a list" where
  "sort_by_comparator cmp xs = foldr (insort_cmp cmp) xs []"

fun update_first :: "('a \<Rightarrow> bool) \<Rightarrow> ('a \<Rightarrow> 'a) \<Rightarrow> 'a list \<Rightarrow> 'a list" where
  "update_first P f [] = []"
| "update_first P f (x # xs) = (if P x then f x # xs else x # update_first P f xs)"

section \<open>The pool client (AbstractDatabasePoolClient.ts)\<close>

text \<open>
  The abstract methods of \<open>AbstractDatabasePoolClient\<close> that change or read jobs, as
  functions on the state \<open>'db\<close> of the store behind the client. An operation takes the
  time of the store's clock (\<open>new Date()\<close>, \<open>CURRENT_TIMESTAMP\<close>) as an argument and returns
  \<open>Inl\<close> the error it throws or \<open>Inr\<close> its result, with the new state. \<open>updateJobStateById\<close>
  takes its optional \<open>errorMessage\<close> as an option. Failures of the connection or of the
  driver are outside the model.
\<close>

record ('db, 'p) DatabasePoolClient =
  insertJob :: "'p \<Rightarrow> JobState \<Rightarrow> int \<Rightarrow> int \<Rightarrow> 'db \<Rightarrow> (error + 'p Job) \<times> 'db"
  acquireJob :: "int \<Rightarrow> 'db \<Rightarrow> (error + 'p Job) \<times> 'db"
  updateJobStateById :: "int \<Rightarrow> JobState \<Rightarrow> string option \<Rightarrow> int \<Rightarrow> 'db \<Rightarrow> (error + 'p Job) \<times> 'db"
  deleteJobsByState :: "JobState list \<Rightarrow> 'db \<Rightarrow> (error + unit) \<times> 'db"

section \<open>The mock client (__tests__/mocks/MockDatabasePoolClient.ts)\<close>

text \<open>
  The three static fields of the class: the id counter, the job array and the ids
  locked by an \<open>acquireJob\<close> in progress. \<open>beginTransaction\<close>, \<open>commitTransaction\<close> and
  \<open>rollbackTransaction\<close> do nothing here. \<open>acquireJob\<close> sorts the array in place before it
  searches it, so the array stays sorted also when no job is found.
\<close>

record 'p MockStatics =
  next_id :: int
  jobs :: "'p Job list"
  lockedJobsIds :: "int list"

definition Mock_insertJob ::
  "'p \<Rightarrow> JobState \<Rightarrow> int \<Rightarrow> int \<Rightarrow> 'p MockStatics \<Rightarrow> (error + 'p Job) \<times> 'p MockStatics" where
  "Mock_insertJob pl st prio now S =
     (let waitingJob = \<lparr>job_id = next_id S, payload = pl, state = st, priority = prio,
                         errorMessage = Undefined, createdAt = now, updatedAt = now\<rparr>
      in (Inr waitingJob, S\<lparr>next_id := next_id S + 1, jobs := jobs S @ [waitingJob]\<rparr>))"

definition Mock_updateJobStateById ::
  "int \<Rightarrow> JobState \<Rightarrow> string option \<Rightarrow> int \<Rightarrow> 'p MockStatics \<Rightarrow> (error + 'p Job) \<times> 'p MockStatics" where
  "Mock_updateJobStateById i st em now S =
     (case find (\<lambda>job. job_id job = i) (jobs S) of
        None \<Rightarrow> (Inl (JobNotFoundError_id i), S)
      | Some job \<Rightarrow>
          let upd = (\<lambda>j. j\<lparr>state := st,
                            errorMessage := (case em of None \<Rightarrow> Undefined | Some m \<Rightarrow> Str m),
                            updatedAt := now\<rparr>)
          in (Inr (upd job), S\<lparr>jobs := update_first (\<lambda>job. job_id job = i) upd (jobs S)\<rparr>))"

definition Mock_acquireJob :: "int \<Rightarrow> 'p MockStatics \<Rightarrow> (error + 'p Job) \<times> 'p MockStatics" where
  "Mock_acquireJob now S =
     (let S1 = S\<lparr>jobs := sort_by_comparator compareJobs (jobs S)\<rparr> in
      case find (\<lambda>job. state job = waiting \<and> job_id job \<notin> set (lockedJobsIds S1)) (jobs S1) of
        None \<Rightarrow> (Inl AcquirableJobNotFoundError, S1)
      | Some waitingJob \<Rightarrow>
          let S2 = S1\<lparr>lockedJobsIds := lockedJobsIds S1 @ [job_id waitingJob]\<rparr> in
          case Mock_updateJobStateById (job_id waitingJob) active None now S2 of
            (Inl e, S3) \<Rightarrow> (Inl e, S3)
          | (Inr activeJob, S3) \<Rightarrow>
              (Inr activeJob,
               S3\<lparr>lockedJobsIds := filter (\<lambda>i. i \<noteq> job_id activeJob) (lockedJobsIds S3)\<rparr>))"

definition Mock_deleteJobsByState ::
  "JobState list \<Rightarrow> 'p MockStatics \<Rightarrow> (error + unit) \<times> 'p MockStatics" where
  "Mock_deleteJobsByState states S =
     (Inr (), S\<lparr>jobs := filter (\<lambda>job. state job \<notin> set states) (jobs S)\<rparr>)"

definition MockDatabasePoolClient :: "('p MockStatics, 'p) DatabasePoolClient" where
  "MockDatabasePoolClient =
     \<lparr>insertJob = Mock_insertJob, acquireJob = Mock_acquireJob,
      updateJobStateById = Mock_updateJobStateById, deleteJobsByState = Mock_deleteJobsByState\<rparr>"

section \<open>The queue table and the SQL statements of the clients\<close>

text \<open>
  The table of one queue, as one connection sees it: its rows in storage order, the
  next value of the id sequence, the ids of the rows that transactions of other
  sessions hold locked, and, while a transaction of this connection is open, the rows
  as they were when it began. Each statement of the two clients is a function on this
  state:
  \<^item> \<open>SELECT * ... WHERE state = 'waiting' ORDER BY priority DESC, createdAt, id LIMIT 1
    FOR UPDATE SKIP LOCKED\<close> leaves out the rows locked elsewhere, orders the rest and
    takes the first; \<open>order_by\<close> compares two rows key by key, \<open>DESC\<close> reversing a
    key;
  \<^item> \<open>SELECT * ... WHERE id = ?\<close> is \<open>select_by_id\<close>;
  \<^item> \<open>INSERT\<close> takes the id from the sequence, leaves \<open>errorMessage\<close> \<open>NULL\<close> and both
    timestamps at the current time;
  \<^item> \<open>DELETE ... WHERE state IN (...)\<close> is \<open>delete_where_state_in\<close>;
  \<^item> \<open>COMMIT\<close> closes the transaction, \<open>ROLLBACK\<close> puts the rows back as they were at
    its beginning.
  A query parameter that is \<open>undefined\<close> is sent as \<open>NULL\<close> by both drivers
  (\<open>bind_parameter\<close>). \<open>or_undefined v\<close> is the expression \<open>v || undefined\<close>.
\<close>

record 'p QueueTable =
  rows :: "'p Job list"
  serial :: int
  rowLocks :: "int list"
  txn :: "'p Job list option"

datatype 'p order_key = Asc "'p Job \<Rightarrow> int" | Desc "'p Job \<Rightarrow> int"

fun order_by :: "'p order_key list \<Rightarrow> 'p Job \<Rightarrow> 'p Job \<Rightarrow> int" where
  "order_by [] a b = 0"
| "order_by (Asc f # ks) a b =
     (if f a < f b then - 1 else if f b < f a then 1 else order_by ks a b)"
| "order_by (Desc f # ks) a b =
     (if f b < f a then - 1 else if f a < f b then 1 else order_by ks a b)"

definition select_waiting_for_update_skip_locked :: "'p QueueTable \<Rightarrow> 'p Job list" where
  "select_waiting_for_update_skip_locked T =
     take 1 (sort_by_comparator (order_by [Desc priority, Asc createdAt, Asc job_id])
               (filter (\<lambda>r. state r = waiting \<and> job_id r \<notin> set (rowLocks T)) (rows T)))"

definition select_by_id :: "int \<Rightarrow> 'p QueueTable \<Rightarrow> 'p Job list" where
  "select_by_id i T = filter (\<lambda>r. job_id r = i) (rows T)"

definition bind_parameter :: "string option \<Rightarrow> errmsg" where
  "bind_parameter em = (case em of None \<Rightarrow> Null | Some m \<Rightarrow> Str m)"

definition or_undefined :: "errmsg \<Rightarrow> errmsg" where
  "or_undefined v = (case v of Undefined \<Rightarrow> Undefined | Null \<Rightarrow> Undefined
                     | Str m \<Rightarrow> if m = [] then Undefined else Str m)"

definition insert_row :: "'p \<Rightarrow> JobState \<Rightarrow> int \<Rightarrow> int \<Rightarrow> 'p QueueTable \<Rightarrow> 'p Job \<times> 'p QueueTable" where
  "insert_row pl st prio now T =
     (let r = \<lparr>job_id = serial T, payload = pl, state = st, priority = prio,
                errorMessage = Null, createdAt = now, updatedAt = now\<rparr>
      in (r, T\<lparr>rows := rows T @ [r], serial := serial T + 1\<rparr>))"

definition delete_where_state_in :: "JobState list \<Rightarrow> 'p QueueTable \<Rightarrow> 'p QueueTable" where
  "delete_where_state_in states T = T\<lparr>rows := filter (\<lambda>r. state r \<notin> set states) (rows T)\<rparr>"

definition commitTransaction :: "'p QueueTable \<Rightarrow> 'p QueueTable" where
  "commitTransaction T = T\<lparr>txn := None\<rparr>"

definition rollbackTransaction :: "'p QueueTable \<Rightarrow> 'p QueueTable" where
  "rollbackTransaction T = (case txn T of None \<Rightarrow> T | Some old \<Rightarrow> T\<lparr>rows := old, txn := None\<rparr>)"

subsection \<open>PostgreSQL (packages/postgresql/src/PostgreSqlPoolClient.ts)\<close>

text \<open>
  \<open>BEGIN\<close> inside an open transaction changes nothing. \<open>UPDATE ... SET state = $1,
  "errorMessage" = $2 WHERE id = $3 RETURNING *\<close> assigns both columns in every row with
  that id, the trigger \<open>update_modified_column_trigger\<close> sets \<open>updatedAt\<close>, and the updated
  rows are returned.
\<close>

definition PostgreSql_beginTransaction :: "'p QueueTable \<Rightarrow> 'p QueueTable" where
  "PostgreSql_beginTransaction T = (case txn T of None \<Rightarrow> T\<lparr>txn := Some (rows T)\<rparr> | Some old \<Rightarrow> T)"

definition PostgreSql_update_returning ::
  "int \<Rightarrow> JobState \<Rightarrow> errmsg \<Rightarrow> int \<Rightarrow> 'p QueueTable \<Rightarrow> 'p Job list \<times> 'p QueueTable" where
  "PostgreSql_update_returning i st v now T =
     (let upd = (\<lambda>r. r\<lparr>state := st, errorMessage := v, updatedAt := now\<rparr>)
      in (map upd (filter (\<lambda>r. job_id r = i) (rows T)),
          T\<lparr>rows := map (\<lambda>r. if job_id r = i then upd r else r) (rows T)\<rparr>))"

definition PostgreSql_updateJobStateById ::
  "int \<Rightarrow> JobState \<Rightarrow> string option \<Rightarrow> int \<Rightarrow> 'p QueueTable \<Rightarrow> (error + 'p Job) \<times> 'p QueueTable" where
  "PostgreSql_updateJobStateById i st em now T =
     (case PostgreSql_update_returning i st (bind_parameter em) now T of
        ([], T') \<Rightarrow> (Inl (JobNotFoundError_id i), T')
      | (job # _, T') \<Rightarrow> (Inr (job\<lparr>errorMessage := or_undefined (errorMessage job)\<rparr>), T'))"

definition PostgreSql_acquireJob :: "int \<Rightarrow> 'p QueueTable \<Rightarrow> (error + 'p Job) \<times> 'p QueueTable" where
  "PostgreSql_acquireJob now T =
     (let T1 = PostgreSql_beginTransaction T in
      case select_waiting_for_update_skip_locked T1 of
        [] \<Rightarrow> (Inl AcquirableJobNotFoundError, rollbackTransaction T1)
      | waitingJob # _ \<Rightarrow>
          (case PostgreSql_updateJobStateById (job_id waitingJob) active None now T1 of
             (Inl e, T2) \<Rightarrow> (Inl e, rollbackTransaction T2)
           | (Inr activeJob, T2) \<Rightarrow>
               (Inr (activeJob\<lparr>errorMessage := or_undefined (errorMessage activeJob)\<rparr>),
                commitTransaction T2)))"

definition PostgreSql_insertJob ::
  "'p \<Rightarrow> JobState \<Rightarrow> int \<Rightarrow> int \<Rightarrow> 'p QueueTable \<Rightarrow> (error + 'p Job) \<times> 'p QueueTable" where
  "PostgreSql_insertJob pl st prio now T =
     (case insert_row pl st prio now T of
        (job, T') \<Rightarrow> (Inr (job\<lparr>errorMessage := or_undefined (errorMessage job)\<rparr>), T'))"

definition PostgreSql_deleteJobsByState ::
  "JobState list \<Rightarrow> 'p QueueTable \<Rightarrow> (error + unit) \<times> 'p QueueTable" where
  "PostgreSql_deleteJobsByState states T = (Inr (), delete_where_state_in states T)"

definition PostgreSqlPoolClient :: "('p QueueTable, 'p) DatabasePoolClient" where
  "PostgreSqlPoolClient =
     \<lparr>insertJob = PostgreSql_insertJob, acquireJob = PostgreSql_acquireJob,
      updateJobStateById = PostgreSql_updateJobStateById,
      deleteJobsByState = PostgreSql_deleteJobsByState\<rparr>"

subsection \<open>MySQL (packages/mysql/src/MySqlPoolClient.ts)\<close>

text \<open>
  \<open>START TRANSACTION\<close> commits a transaction that is open and begins a new one.
  \<open>UPDATE ... SET state = ?, errorMessage = ? WHERE id = ?\<close> assigns both columns in
  every row with that id; \<open>ON UPDATE CURRENT_TIMESTAMP(3)\<close> sets \<open>updatedAt\<close> in a row
  that the assignment changes. The client then reads the row back with a \<open>SELECT\<close>.
\<close>

definition MySql_beginTransaction :: "'p QueueTable \<Rightarrow> 'p QueueTable" where
  "MySql_beginTransaction T = T\<lparr>txn := Some (rows T)\<rparr>"

definition MySql_update :: "int \<Rightarrow> JobState \<Rightarrow> errmsg \<Rightarrow> int \<Rightarrow> 'p QueueTable \<Rightarrow> 'p QueueTable" where
  "MySql_update i st v now T =
     (let upd = (\<lambda>r. if state r = st \<and> errorMessage r = v then r
                      else r\<lparr>state := st, errorMessage := v, updatedAt := now\<rparr>)
      in T\<lparr>rows := map (\<lambda>r. if job_id r = i then upd r else r) (rows T)\<rparr>)"

definition MySql_updateJobStateById ::
  "int \<Rightarrow> JobState \<Rightarrow> string option \<Rightarrow> int \<Rightarrow> 'p QueueTable \<Rightarrow> (error + 'p Job) \<times> 'p QueueTable" where
  "MySql_updateJobStateById i st em now T =
     (let T' = MySql_update i st (bind_parameter em) now T in
      case select_by_id i T' of
        [] \<Rightarrow> (Inl (JobNotFoundError_id i), T')
      | job # _ \<Rightarrow> (Inr (job\<lparr>errorMessage := or_undefined (errorMessage job)\<rparr>), T'))"

definition MySql_acquireJob :: "int \<Rightarrow> 'p QueueTable \<Rightarrow> (error + 'p Job) \<times> 'p QueueTable" where
  "MySql_acquireJob now T =
     (let T1 = MySql_beginTransaction T in
      case select_waiting_for_update_skip_locked T1 of
        [] \<Rightarrow> (Inl AcquirableJobNotFoundError, rollbackTransaction T1)
      | waitingJob # _ \<Rightarrow>
          (case MySql_updateJobStateById (job_id waitingJob) active None now T1 of
             (Inl e, T2) \<Rightarrow> (Inl e, rollbackTransaction T2)
           | (Inr activeJob, T2) \<Rightarrow>
               (Inr (activeJob\<lparr>errorMessage := or_undefined (errorMessage activeJob)\<rparr>),
                commitTransaction T2)))"

definition MySql_insertJob ::
  "'p \<Rightarrow> JobState \<Rightarrow> int \<Rightarrow> int \<Rightarrow> 'p QueueTable \<Rightarrow> (error + 'p Job) \<times> 'p QueueTable" where
  "MySql_insertJob pl st prio now T =
     (case insert_row pl st prio now T of
        (inserted, T') \<Rightarrow>
          (case select_by_id (job_id inserted) T' of
             [] \<Rightarrow> (Inl (TypeError (''Cannot read properties of undefined (reading ''
                              @ [CHR 0x27] @ ''errorMessage'' @ [CHR 0x27] @ '')'')), T')
           | job # _ \<Rightarrow> (Inr (job\<lparr>errorMessage := or_undefined (errorMessage job)\<rparr>), T')))"

definition MySql_deleteJobsByState ::
  "JobState list \<Rightarrow> 'p QueueTable \<Rightarrow> (error + unit) \<times> 'p QueueTable" where
  "MySql_deleteJobsByState states T = (Inr (), delete_where_state_in states T)"

definition MySqlPoolClient :: "('p QueueTable, 'p) DatabasePoolClient" where
  "MySqlPoolClient =
     \<lparr>insertJob = MySql_insertJob, acquireJob = MySql_acquireJob,
      updateJobStateById = MySql_updateJobStateById,
      deleteJobsByState = MySql_deleteJobsByState\<rparr>"

section \<open>The queue (AbstractDatabaseQueue.ts): job operations\<close>

text \<open>
  \<open>add\<close>, \<open>drain\<close> and \<open>empty\<close> take a client from the pool, call one operation of it
  and release it. The priority of \<open>add\<close> is optional and defaults to
  \<open>defaultJobPriority\<close>.
\<close>

definition defaultJobPriority :: int where
  "defaultJobPriority = 5"

definition Queue_add ::
  "('db, 'p) DatabasePoolClient \<Rightarrow> 'p \<Rightarrow> int option \<Rightarrow> int \<Rightarrow> 'db \<Rightarrow> (error + 'p Job) \<times> 'db" where
  "Queue_add client pl prio now db =
     insertJob client pl waiting (case prio of None \<Rightarrow> defaultJobPriority | Some p \<Rightarrow> p) now db"

definition Queue_drain :: "('db, 'p) DatabasePoolClient \<Rightarrow> 'db \<Rightarrow> (error + unit) \<times> 'db" where
  "Queue_drain client db = deleteJobsByState client [waiting] db"

definition Queue_empty :: "('db, 'p) DatabasePoolClient \<Rightarrow> 'db \<Rightarrow> (error + unit) \<times> 'db" where
  "Queue_empty client db = deleteJobsByState client [waiting, active, completed, failed] db"

section \<open>The queue (AbstractDatabaseQueue.ts): registry and lifecycle\<close>

text \<open>
  A queue object holds its name, its \<open>autostart\<close> option, its running flag and the set
  of its workers. The process holds the static registry \<open>#instances\<close>, from names to
  queue objects, and the objects themselves; \<open>new\<close> allocates the next free reference.
  The constructor's \<open>options\<close> argument is partial: \<open>None\<close> leaves \<open>autostart\<close> at its
  default, \<open>true\<close>. Pools and workers are collaborators of the queue: \<open>close\<close> takes the
  outcome of closing the workers and of closing the pool (\<open>None\<close> when the promise
  resolves, an error when it rejects), and reaches \<open>#instances.delete\<close> only after both
  have resolved.
\<close>

record QueueObject =
  queue_name :: string
  queue_autostart :: bool
  queue_running :: bool
  queue_workers :: "nat list"

record Process =
  instances :: "string \<rightharpoonup> nat"
  heap :: "nat \<rightharpoonup> QueueObject"
  next_ref :: nat

definition initial_process :: Process where
  "initial_process = \<lparr>instances = Map.empty, heap = Map.empty, next_ref = 0\<rparr>"

definition Queue_start :: "nat \<Rightarrow> Process \<Rightarrow> Process" where
  "Queue_start this P =
     (case heap P this of
        None \<Rightarrow> P
      | Some q \<Rightarrow>
          if \<not> queue_running q then P\<lparr>heap := (heap P)(this \<mapsto> q\<lparr>queue_running := True\<rparr>)\<rparr>
          else P)"

definition Queue_stop :: "nat \<Rightarrow> Process \<Rightarrow> Process" where
  "Queue_stop this P =
     (case heap P this of
        None \<Rightarrow> P
      | Some q \<Rightarrow>
          if queue_running q then P\<lparr>heap := (heap P)(this \<mapsto> q\<lparr>queue_running := False\<rparr>)\<rparr>
          else P)"

definition already_exists_message :: "string \<Rightarrow> string" where
  "already_exists_message nm =
     ''Queue with name '' @ [CHR 0x27] @ nm @ [CHR 0x27] @ '' already exists.''"

definition new_Queue :: "string \<Rightarrow> bool option \<Rightarrow> Process \<Rightarrow> (error + nat) \<times> Process" where
  "new_Queue nm autostart_option P =
     (if instances P nm \<noteq> None then (Inl (new_Error (already_exists_message nm)), P)
      else
        let this = next_ref P;
            autostart = (case autostart_option of None \<Rightarrow> True | Some b \<Rightarrow> b);
            q = \<lparr>queue_name = nm, queue_autostart = autostart, queue_running = False,
                 queue_workers = []\<rparr>;
            P1 = P\<lparr>instances := (instances P)(nm \<mapsto> this), heap := (heap P)(this \<mapsto> q),
                   next_ref := this + 1\<rparr>
        in (Inr this, if autostart then Queue_start this P1 else P1))"

definition Queue_close ::
  "nat \<Rightarrow> error option \<Rightarrow> error option \<Rightarrow> Process \<Rightarrow> (error + unit) \<times> Process" where
  "Queue_close this workers_close pool_close P =
     (case heap P this of
        None \<Rightarrow> (Inl (TypeError ''Cannot write private member to an object whose class did not declare it''), P)
      | Some q \<Rightarrow>
          let P1 = P\<lparr>heap := (heap P)(this \<mapsto> q\<lparr>queue_running := False\<rparr>)\<rparr> in
          case workers_close of
            Some e \<Rightarrow> (Inl e, P1)
          | None \<Rightarrow>
              (case pool_close of
                 Some e \<Rightarrow> (Inl e, P1)
               | None \<Rightarrow> (Inr (), P1\<lparr>instances := (instances P1)(queue_name q := None)\<rparr>)))"

section \<open>The worker (AbstractDatabaseWorker.ts)\<close>

text \<open>
  \<open>processJob\<close> is the private method \<open>#processJob\<close>: acquire a job, emit \<open>activated\<close> on
  the worker and on the queue, run the processor under \<open>retry\<close>, then record
  \<open>completed\<close> or, in the \<open>catch\<close> branch, \<open>failed\<close> with the normalised error's message,
  and emit the matching event on both. The processor is modelled by the outcome of
  each of its calls on a job, as the function of \<open>retry\<close> is. The result of a step is
  the error it throws, if any, the store, the events in the order of their emission
  and the effects of \<open>retry\<close>. \<open>clock k\<close> is the store's time at the \<open>k\<close>-th database
  operation of the step. Listeners are taken not to throw.
\<close>

record DatabaseWorkerOptions =
  autostart :: bool
  processingInterval :: int
  waitingInterval :: int
  maxRetries :: int
  retryInterval :: int

definition defaultOptions :: DatabaseWorkerOptions where
  "defaultOptions =
     \<lparr>autostart = True, processingInterval = 0, waitingInterval = 1000, maxRetries = 3,
      retryInterval = 500\<rparr>"

datatype emitter = WorkerEvents | QueueEvents

datatype 'p event =
  Ev_waiting | Ev_activated "'p Job" | Ev_completed "'p Job" | Ev_failed "'p Job" error
  | Ev_error error

record ('db, 'p) processed =
  thrown_error :: "error option"
  store :: 'db
  emitted :: "(emitter \<times> 'p event) list"
  effects :: retry_effects

definition processJob ::
  "('db, 'p) DatabasePoolClient \<Rightarrow> ('p Job \<Rightarrow> nat \<Rightarrow> thrown + unit) \<Rightarrow> DatabaseWorkerOptions
     \<Rightarrow> (nat \<Rightarrow> int) \<Rightarrow> 'db \<Rightarrow> ('db, 'p) processed" where
  "processJob client processor options clock db =
     (case acquireJob client (clock 0) db of
        (Inl e, db1) \<Rightarrow>
          \<lparr>thrown_error = Some e, store = db1, emitted = [],
           effects = \<lparr>calls = 0, sleeps = []\<rparr>\<rparr>
      | (Inr activeJob, db1) \<Rightarrow>
          let ev = [(WorkerEvents, Ev_activated activeJob), (QueueEvents, Ev_activated activeJob)];
              tried = retry (processor activeJob) (maxRetries options) (retryInterval options);
              catch = (\<lambda>caught t db2.
                let error = normalizeError caught in
                case updateJobStateById client (job_id activeJob) failed (Some (message error)) t db2 of
                  (Inl e, db3) \<Rightarrow>
                    \<lparr>thrown_error = Some e, store = db3, emitted = ev, effects = snd tried\<rparr>
                | (Inr failedJob, db3) \<Rightarrow>
                    \<lparr>thrown_error = None, store = db3,
                     emitted = ev @ [(WorkerEvents, Ev_failed failedJob error),
                                     (QueueEvents, Ev_failed failedJob error)],
                     effects = snd tried\<rparr>)
          in case fst tried of
               Inl err \<Rightarrow> catch (ThrownError err) (clock 1) db1
             | Inr u \<Rightarrow>
                 (case updateJobStateById client (job_id activeJob) completed None (clock 1) db1 of
                    (Inl e, db2) \<Rightarrow> catch (ThrownError e) (clock 2) db2
                  | (Inr completedJob, db2) \<Rightarrow>
                      \<lparr>thrown_error = None, store = db2,
                       emitted = ev @ [(WorkerEvents, Ev_completed completedJob),
                                       (QueueEvents, Ev_completed completedJob)],
                       effects = snd tried\<rparr>))"

section \<open>Vocabulary of the properties\<close>

text \<open>
  \<open>least_waiting w js locked\<close>: \<open>w\<close> is a waiting, unlocked job of the collection \<open>js\<close>
  and the comparator puts it strictly before every other waiting, unlocked job of \<open>js\<close>.
\<close>

definition least_waiting :: "'p Job \<Rightarrow> 'p Job list \<Rightarrow> int list \<Rightarrow> bool" where
  "least_waiting w js locked \<longleftrightarrow>
     w \<in> set js \<and> state w = waiting \<and> job_id w \<notin> set locked
     \<and> (\<forall>j\<in>set js. state j = waiting \<and> job_id j \<notin> set locked \<and> j \<noteq> w
            \<longrightarrow> compareJobs w j < 0)"

text \<open>
  \<open>nonempty_or_undefined\<close>: an \<open>errorMessage\<close> that is absent or a non-empty string (not
  \<open>null\<close>, not \<open>''\<close>). \<open>returns_normalised\<close>: an operation that returned a job returned
  one with such an \<open>errorMessage\<close>.
\<close>

definition nonempty_or_undefined :: "errmsg \<Rightarrow> bool" where
  "nonempty_or_undefined v = (case v of Undefined \<Rightarrow> True | Null \<Rightarrow> False | Str m \<Rightarrow> m \<noteq> [])"

definition returns_normalised :: "(error + 'p Job) \<times> 'db \<Rightarrow> bool" where
  "returns_normalised R =
     (case fst R of Inl e \<Rightarrow> True | Inr job \<Rightarrow> nonempty_or_undefined (errorMessage job))"

text \<open>
  \<open>fails_after_retries w processor K clock stored R\<close>: the processing step \<open>R\<close> leased
  the job \<open>w\<close> and failed it. It returned normally; the processor was invoked
  \<open>max 1 K\<close> times; the error is the \<open>MaxRetriesError\<close> for \<open>K\<close> wrapping the error of the
  last invocation, with the message \<open>"Function failed after K retries: ..."\<close>; the
  events are \<open>activated\<close> on the worker and on the queue, then \<open>failed\<close> on the worker and
  on the queue, carrying the failed job and that error; and the job stored under the
  id of \<open>w\<close> is that failed job: state \<open>failed\<close>, \<open>errorMessage\<close> the error's message.
\<close>

definition fails_after_retries ::
  "'p Job \<Rightarrow> ('p Job \<Rightarrow> nat \<Rightarrow> thrown + unit) \<Rightarrow> int \<Rightarrow> (nat \<Rightarrow> int) \<Rightarrow> ('db \<Rightarrow> 'p Job list)
     \<Rightarrow> ('db, 'p) processed \<Rightarrow> bool" where
  "fails_after_retries w processor K clock stored R \<longleftrightarrow>
     (let activeJob = w\<lparr>state := active, errorMessage := Undefined, updatedAt := clock 0\<rparr>;
          n = nat (max 1 K);
          last_error = normalizeError (projl (processor activeJob (n - 1)));
          error = MaxRetriesError K last_error;
          failedJob = w\<lparr>state := failed, errorMessage := Str (message error), updatedAt := clock 1\<rparr>
      in thrown_error R = None
         \<and> calls (effects R) = n
         \<and> message error =
             ''Function failed after '' @ number_to_string K @ '' retries: '' @ message last_error
         \<and> emitted R = [(WorkerEvents, Ev_activated activeJob), (QueueEvents, Ev_activated activeJob),
                        (WorkerEvents, Ev_failed failedJob error),
                        (QueueEvents, Ev_failed failedJob error)]
         \<and> find (\<lambda>j. job_id j = job_id w) (stored (store R)) = Some failedJob)"

section \<open>Sample data\<close>

text \<open>
  The jobs of the specification's first scenario (priorities 3, 5 and 4, enqueued in
  that order) next to a job that is already active, as the mock client and as a
  database table hold them.
\<close>

definition sample_job :: "int \<Rightarrow> JobState \<Rightarrow> int \<Rightarrow> int \<Rightarrow> errmsg \<Rightarrow> unit Job" where
  "sample_job i st p t em =
     \<lparr>job_id = i, payload = (), state = st, priority = p, errorMessage = em,
      createdAt = t, updatedAt = t\<rparr>"

definition sample_mock :: "unit MockStatics" where
  "sample_mock =
     \<lparr>next_id = 5,
      jobs = [sample_job 1 waiting 3 1000 Undefined, sample_job 2 waiting 5 1010 Undefined,
              sample_job 3 waiting 4 1020 Undefined, sample_job 4 active 9 1030 Undefined],
      lockedJobsIds = []\<rparr>"

definition sample_table :: "unit QueueTable" where
  "sample_table =
     \<lparr>rows = [sample_job 1 waiting 3 1000 Null, sample_job 2 waiting 5 1010 Null,
              sample_job 3 waiting 4 1020 Null, sample_job 4 active 9 1030 Null],
      serial = 5, rowLocks = [], txn = None\<rparr>"

definition sample_idle_mock :: "unit MockStatics" where
  "sample_idle_mock =
     \<lparr>next_id = 4,
      jobs = [sample_job 1 completed 3 1000 Undefined, sample_job 2 active 5 1010 Undefined,
              sample_job 3 failed 4 1020 (Str ''boom'')],
      lockedJobsIds = []\<rparr>"

definition sample_idle_table :: "unit QueueTable" where
  "sample_idle_table =
     \<lparr>rows = [sample_job 1 completed 3 1000 Null, sample_job 2 active 5 1010 Null,
              sample_job 3 failed 4 1020 (Str ''boom'')],
      serial = 4, rowLocks = [], txn = None\<rparr>"

text \<open>
  The same table while another session holds the row of job 2 locked, and while
  other sessions hold the rows of all three waiting jobs locked.
\<close>

definition sample_locked_table :: "unit QueueTable" where
  "sample_locked_table = sample_table\<lparr>rowLocks := [2]\<rparr>"

definition sample_all_locked_table :: "unit QueueTable" where
  "sample_all_locked_table = sample_table\<lparr>rowLocks := [1, 2, 3]\<rparr>"

text \<open>A table whose only job is active and carries an error message.\<close>

definition sample_stale_table :: "unit QueueTable" where
  "sample_stale_table =
     \<lparr>rows = [sample_job 7 active 5 1000 (Str ''boom'')],
      serial = 8, rowLocks = [], txn = None\<rparr>"

text \<open>The process after \<open>new Queue('Q', config)\<close> in a fresh process.\<close>

definition sample_process :: Process where
  "sample_process = snd (new_Queue ''Q'' None initial_process)"

text \<open>
  A processor that throws \<open>Error("boom")\<close> on every call, and a clock for the database
  operations of one processing step.
\<close>

definition always_boom :: "unit Job \<Rightarrow> nat \<Rightarrow> thrown + unit" where
  "always_boom job k = Inl (ThrownError (new_Error ''boom''))"

definition sample_clock :: "nat \<Rightarrow> int" where
  "sample_clock k = 2000 + int k"



section \<open>Properties\<close>

subsection \<open>The comparator\<close>

lemma compareJobs_neg_iff: "compareJobs a b < 0 \<longleftrightarrow> dequeue_before a b"
  by (auto simp: compareJobs_def dequeue_before_def)

lemma compareJobs_zero_iff:
  "compareJobs a b = 0 \<longleftrightarrow>
     priority a = priority b \<and> createdAt a = createdAt b \<and> job_id a = job_id b"
  by (auto simp: compareJobs_def)

lemma compareJobs_pos_iff: "compareJobs a b > 0 \<longleftrightarrow> dequeue_before b a"
  by (auto simp: compareJobs_def dequeue_before_def)

lemma dequeue_before_trans:
  "dequeue_before a b \<Longrightarrow> dequeue_before b c \<Longrightarrow> dequeue_before a c"
  by (auto simp: dequeue_before_def)

lemma dequeue_before_irrefl: "\<not> dequeue_before a a"
  by (simp add: dequeue_before_def)

lemma dequeue_before_total:
  "job_id a \<noteq> job_id b \<Longrightarrow> dequeue_before a b \<or> dequeue_before b a"
  by (auto simp: dequeue_before_def)

text \<open>
  Claim C3. \<open>compareJobs a b\<close> is negative exactly when \<open>a\<close> has the higher priority, or
  the same priority and the earlier \<open>createdAt\<close>, or both equal and the smaller id; it
  is zero exactly when priority, \<open>createdAt\<close> (in milliseconds) and id all agree. The
  relation "\<open>compareJobs a b < 0\<close>" is irreflexive and transitive, and any two jobs with
  distinct ids are related one way or the other: a strict total order on jobs with
  distinct ids.
\<close>

theorem compareJobs_strict_total_order:
  "(compareJobs a b < 0 \<longleftrightarrow>
      priority a > priority b
      \<or> (priority a = priority b \<and> createdAt a < createdAt b)
      \<or> (priority a = priority b \<and> createdAt a = createdAt b \<and> job_id a < job_id b))
   \<and> (compareJobs a b = 0 \<longleftrightarrow>
      priority a = priority b \<and> createdAt a = createdAt b \<and> job_id a = job_id b)
   \<and> \<not> compareJobs a a < 0
   \<and> (compareJobs a b < 0 \<longrightarrow> compareJobs b c < 0 \<longrightarrow> compareJobs a c < 0)
   \<and> (job_id a \<noteq> job_id b \<longrightarrow> compareJobs a b < 0 \<or> compareJobs b a < 0)"
proof -
  have "compareJobs a b < 0 \<longleftrightarrow> dequeue_before a b"
    by (rule compareJobs_neg_iff)
  moreover have "compareJobs a b < 0 \<longrightarrow> compareJobs b c < 0 \<longrightarrow> compareJobs a c < 0"
    using dequeue_before_trans [of a b c] by (simp add: compareJobs_neg_iff)
  moreover have "job_id a \<noteq> job_id b \<longrightarrow> compareJobs a b < 0 \<or> compareJobs b a < 0"
    using dequeue_before_total [of a b] by (simp add: compareJobs_neg_iff)
  ultimately show ?thesis
    by (simp add: compareJobs_zero_iff compareJobs_neg_iff dequeue_before_irrefl)
       (simp add: dequeue_before_def)
qed

theorem compareJobs_strict_total_order_witness:
  "compareJobs \<lparr>job_id = 2, payload = (), state = waiting, priority = 5,
        errorMessage = Undefined, createdAt = 10, updatedAt = 10\<rparr>
      \<lparr>job_id = 1, payload = (), state = waiting, priority = 4,
        errorMessage = Undefined, createdAt = 5, updatedAt = 5\<rparr> < 0
   \<and> compareJobs \<lparr>job_id = 1, payload = (), state = waiting, priority = 4,
        errorMessage = Undefined, createdAt = 5, updatedAt = 5\<rparr>
      \<lparr>job_id = 3, payload = (), state = waiting, priority = 4,
        errorMessage = Undefined, createdAt = 7, updatedAt = 7\<rparr> < 0
   \<and> compareJobs \<lparr>job_id = 2, payload = (), state = waiting, priority = 5,
        errorMessage = Undefined, createdAt = 10, updatedAt = 10\<rparr>
      \<lparr>job_id = 3, payload = (), state = waiting, priority = 4,
        errorMessage = Undefined, createdAt = 7, updatedAt = 7\<rparr> < 0"
  using compareJobs_strict_total_order
    [of "\<lparr>job_id = 2, payload = (), state = waiting, priority = 5,
           errorMessage = Undefined, createdAt = 10, updatedAt = 10\<rparr>"
        "\<lparr>job_id = 1, payload = (), state = waiting, priority = 4,
           errorMessage = Undefined, createdAt = 5, updatedAt = 5\<rparr>"
        "\<lparr>job_id = 3, payload = (), state = waiting, priority = 4,
           errorMessage = Undefined, createdAt = 7, updatedAt = 7\<rparr>"]
  by (simp add: compareJobs_def)

subsection \<open>The retry utility\<close>

lemma attempt_all_fail:
  assumes "\<forall>i. calls w \<le> i \<and> i \<le> calls w + nat (m - c) \<longrightarrow> isl (fn i)"
  shows "attempt fn m d c w =
     (Inl (MaxRetriesError m (normalizeError (projl (fn (calls w + nat (m - c)))))),
      \<lparr>calls = calls w + nat (m - c) + 1,
       sleeps = sleeps w @ (if d > 0 then replicate (nat (m - c)) d else [])\<rparr>)"
  using assms
proof (induction fn m d c w rule: attempt.induct)
  case (1 fn m d c w)
  from "1.prems" have "isl (fn (calls w))"
    by simp
  then obtain err where err: "fn (calls w) = Inl err"
    by (auto simp: isl_def)
  show ?case
  proof (cases "c \<ge> m")
    case True
    then show ?thesis
      by (subst attempt.simps) (simp add: err)
  next
    case False
    let ?w1 = "w\<lparr>calls := calls w + 1\<rparr>"
    let ?w2 = "if d > 0 then ?w1\<lparr>sleeps := sleeps ?w1 @ [d]\<rparr> else ?w1"
    have c2: "calls ?w2 = calls w + 1" by simp
    have n: "nat (m - c) = Suc (nat (m - (c + 1)))"
      using False by simp
    have "\<forall>i. calls ?w2 \<le> i \<and> i \<le> calls ?w2 + nat (m - (c + 1)) \<longrightarrow> isl (fn i)"
    proof (intro allI impI)
      fix i assume "calls ?w2 \<le> i \<and> i \<le> calls ?w2 + nat (m - (c + 1))"
      then have "calls w \<le> i \<and> i \<le> calls w + nat (m - c)"
        unfolding c2 n by simp
      with "1.prems" show "isl (fn i)" by blast
    qed
    from "1.IH" [OF refl err False this]
    have IH: "attempt fn m d (c + 1) ?w2 =
      (Inl (MaxRetriesError m (normalizeError (projl (fn (calls ?w2 + nat (m - (c + 1))))))),
       \<lparr>calls = calls ?w2 + nat (m - (c + 1)) + 1,
        sleeps = sleeps ?w2 @ (if d > 0 then replicate (nat (m - (c + 1))) d else [])\<rparr>)" .
    have "attempt fn m d c w = attempt fn m d (c + 1) ?w2"
      using False by (subst attempt.simps) (simp add: err Let_def)
    also note IH
    finally show ?thesis
      by (simp add: c2 n replicate_append_same [symmetric] del: replicate.simps)
         (simp add: replicate_append_same)
  qed
qed

lemma attempt_succeeds_after:
  assumes "\<forall>i<j. isl (fn (calls w + i))" and "fn (calls w + j) = Inr r"
    and "j = 0 \<or> c + int j \<le> m"
  shows "attempt fn m d c w =
     (Inr r, \<lparr>calls = calls w + j + 1,
              sleeps = sleeps w @ (if d > 0 then replicate j d else [])\<rparr>)"
  using assms
proof (induction j arbitrary: c w)
  case 0
  then show ?case
    by (subst attempt.simps) simp
next
  case (Suc j)
  from Suc.prems(1) have "isl (fn (calls w + 0))"
    by blast
  then obtain err where err: "fn (calls w) = Inl err"
    by (auto simp: isl_def)
  let ?w1 = "w\<lparr>calls := calls w + 1\<rparr>"
  let ?w2 = "if d > 0 then ?w1\<lparr>sleeps := sleeps ?w1 @ [d]\<rparr> else ?w1"
  have c2: "calls ?w2 = calls w + 1" by simp
  have lim: "\<not> c \<ge> m" using Suc.prems(3) by simp
  have a: "\<forall>i<j. isl (fn (calls ?w2 + i))"
  proof (intro allI impI)
    fix i assume "i < j"
    then have "Suc i < Suc j" by simp
    with Suc.prems(1) have "isl (fn (calls w + Suc i))" by blast
    then show "isl (fn (calls ?w2 + i))" by (simp add: c2)
  qed
  have b: "fn (calls ?w2 + j) = Inr r"
    using Suc.prems(2) by (simp add: c2)
  have c: "j = 0 \<or> (c + 1) + int j \<le> m"
    using Suc.prems(3) by simp
  have "attempt fn m d c w = attempt fn m d (c + 1) ?w2"
    using lim by (subst attempt.simps) (simp add: err Let_def)
  also have "\<dots> = (Inr r, \<lparr>calls = calls ?w2 + j + 1,
              sleeps = sleeps ?w2 @ (if d > 0 then replicate j d else [])\<rparr>)"
    by (rule Suc.IH [OF a b c])
  finally show ?case
    by (simp add: c2)
qed

lemma retry_all_fail:
  assumes "1 \<le> n" and "\<forall>i<nat n. isl (fn i)"
  shows "retry fn n d =
     (Inl (MaxRetriesError n (normalizeError (projl (fn (nat n - 1))))),
      \<lparr>calls = nat n, sleeps = (if d > 0 then replicate (nat n - 1) d else [])\<rparr>)"
proof -
  let ?w = "\<lparr>calls = 0, sleeps = []\<rparr>"
  have k: "nat (n - 1) = nat n - 1" "Suc (nat n - Suc 0) = nat n"
    using assms(1) by simp_all
  have "\<forall>i. calls ?w \<le> i \<and> i \<le> calls ?w + nat (n - 1) \<longrightarrow> isl (fn i)"
  proof (intro allI impI)
    fix i assume "calls ?w \<le> i \<and> i \<le> calls ?w + nat (n - 1)"
    then have "i < nat n" using assms(1) by simp
    with assms(2) show "isl (fn i)" by blast
  qed
  then have "attempt fn n d 1 ?w =
     (Inl (MaxRetriesError n (normalizeError (projl (fn (calls ?w + nat (n - 1)))))),
      \<lparr>calls = calls ?w + nat (n - 1) + 1,
       sleeps = sleeps ?w @ (if d > 0 then replicate (nat (n - 1)) d else [])\<rparr>)"
    by (rule attempt_all_fail)
  then show ?thesis
    by (simp add: retry_def k)
qed

lemma retry_success_at:
  assumes "1 \<le> k" and "int k \<le> n" and "\<forall>i<k - 1. isl (fn i)" and "fn (k - 1) = Inr r"
  shows "retry fn n d =
     (Inr r, \<lparr>calls = k, sleeps = (if d > 0 then replicate (k - 1) d else [])\<rparr>)"
proof -
  let ?w = "\<lparr>calls = 0, sleeps = []\<rparr>"
  have a: "\<forall>i<k - 1. isl (fn (calls ?w + i))"
    using assms(3) by simp
  have b: "fn (calls ?w + (k - 1)) = Inr r"
    using assms(4) by simp
  have c: "k - 1 = 0 \<or> 1 + int (k - 1) \<le> n"
    using assms(1,2) by simp
  have "attempt fn n d 1 ?w =
     (Inr r, \<lparr>calls = calls ?w + (k - 1) + 1,
        sleeps = sleeps ?w @ (if d > 0 then replicate (k - 1) d else [])\<rparr>)"
    using a b c by (rule attempt_succeeds_after)
  then show ?thesis using assms(1)
    by (simp add: retry_def)
qed

text \<open>
  Claim C4. Let \<open>1 \<le> n\<close>. If the first \<open>n\<close> calls of \<open>fn\<close> all fail (in particular if
  \<open>fn\<close> fails on every call), \<open>retry fn n d\<close> calls \<open>fn\<close> exactly \<open>n\<close> times and throws the
  \<open>MaxRetriesError\<close> whose message is \<open>"Function failed after " + n + " retries: "\<close>
  followed by the message of the error of the last, \<open>n\<close>-th, call. If the first
  \<open>k - 1\<close> calls fail and the \<open>k\<close>-th succeeds with \<open>r\<close>, for \<open>1 \<le> k \<le> n\<close>, then
  \<open>retry\<close> returns \<open>r\<close> after exactly \<open>k\<close> calls.
\<close>

theorem retry_first_attempt_counts:
  assumes "1 \<le> n"
  shows "((\<forall>i<nat n. isl (fn i)) \<longrightarrow>
            fst (retry fn n d) = Inl (MaxRetriesError n (normalizeError (projl (fn (nat n - 1)))))
          \<and> calls (snd (retry fn n d)) = nat n
          \<and> error_class (MaxRetriesError n (normalizeError (projl (fn (nat n - 1))))) = MaxRetriesErrorClass
          \<and> message (MaxRetriesError n (normalizeError (projl (fn (nat n - 1))))) =
              ''Function failed after '' @ number_to_string n @ '' retries: ''
                @ message (normalizeError (projl (fn (nat n - 1)))))
       \<and> (1 \<le> k \<and> int k \<le> n \<and> (\<forall>i<k - 1. isl (fn i)) \<and> fn (k - 1) = Inr r \<longrightarrow>
            fst (retry fn n d) = Inr r \<and> calls (snd (retry fn n d)) = k)"
proof (intro conjI impI)
  assume "\<forall>i<nat n. isl (fn i)"
  from retry_all_fail [OF assms this, of d]
  show "fst (retry fn n d) = Inl (MaxRetriesError n (normalizeError (projl (fn (nat n - 1)))))"
    and "calls (snd (retry fn n d)) = nat n"
    by simp_all
next
  assume "1 \<le> k \<and> int k \<le> n \<and> (\<forall>i<k - 1. isl (fn i)) \<and> fn (k - 1) = Inr r"
  then have "retry fn n d =
     (Inr r, \<lparr>calls = k, sleeps = (if d > 0 then replicate (k - 1) d else [])\<rparr>)"
    by (intro retry_success_at) simp_all
  then show "fst (retry fn n d) = Inr r" and "calls (snd (retry fn n d)) = k"
    by simp_all
qed (simp_all add: MaxRetriesError_def)

theorem retry_first_attempt_counts_witness:
  "fst (retry (mockFunction 3) 3 0) =
      Inl \<lparr>error_class = MaxRetriesErrorClass, message = ''Function failed after 3 retries: Fail 3''\<rparr>
   \<and> calls (snd (retry (mockFunction 3) 3 0)) = 3
   \<and> fst (retry (mockFunction 2) 3 0) = Inr ''Success''
   \<and> calls (snd (retry (mockFunction 2) 3 0)) = 3"
proof -
  have h1: "\<forall>i<nat 3. isl (mockFunction 3 i)"
    by (simp add: mockFunction_def)
  have h2: "(1::nat) \<le> 3 \<and> int 3 \<le> 3 \<and> (\<forall>i<3 - 1. isl (mockFunction 2 i))
              \<and> mockFunction 2 (3 - 1) = Inr ''Success''"
    by (simp add: mockFunction_def)
  have e: "MaxRetriesError 3 (normalizeError (projl (mockFunction 3 (nat 3 - 1)))) =
      \<lparr>error_class = MaxRetriesErrorClass, message = ''Function failed after 3 retries: Fail 3''\<rparr>"
    by (simp add: mockFunction_def MaxRetriesError_def normalizeError_def new_Error_def
          number_to_string_def string_of_nat.simps)
  from retry_first_attempt_counts [where n = 3 and fn = "mockFunction 3" and d = 0] h1 e
  have "fst (retry (mockFunction 3) 3 0) =
      Inl \<lparr>error_class = MaxRetriesErrorClass, message = ''Function failed after 3 retries: Fail 3''\<rparr>
   \<and> calls (snd (retry (mockFunction 3) 3 0)) = 3"
    by simp
  moreover
  from retry_first_attempt_counts
         [where n = 3 and fn = "mockFunction 2" and d = 0 and k = 3 and r = "''Success''"] h2
  have "fst (retry (mockFunction 2) 3 0) = Inr ''Success''
   \<and> calls (snd (retry (mockFunction 2) 3 0)) = 3"
    by simp
  ultimately show ?thesis by simp
qed

text \<open>
  Claim C9. For every \<open>maxRetries = n \<le> 1\<close>, zero and negative values included,
  \<open>retry fn n d\<close> calls \<open>fn\<close> exactly once and never sleeps: the first attempt is made
  before the limit is looked at. If that call fails, the error is wrapped as the
  \<open>MaxRetriesError\<close> that reports \<open>n\<close> retries; if it succeeds, its result is returned.
\<close>

theorem retry_limit_below_two_calls_once:
  assumes "n \<le> 1"
  shows "calls (snd (retry fn n d)) = 1
       \<and> sleeps (snd (retry fn n d)) = []
       \<and> (case fn 0 of
            Inl e \<Rightarrow> fst (retry fn n d) = Inl (MaxRetriesError n (normalizeError e))
                   \<and> message (MaxRetriesError n (normalizeError e)) =
                       ''Function failed after '' @ number_to_string n @ '' retries: ''
                         @ message (normalizeError e)
          | Inr r \<Rightarrow> fst (retry fn n d) = Inr r)"
  using assms
  by (simp add: retry_def attempt.simps [of fn n d 1] MaxRetriesError_def split: sum.split)

theorem retry_limit_below_two_calls_once_witness:
  "calls (snd (retry (mockFunction 5) 0 100)) = 1
   \<and> fst (retry (mockFunction 5) 0 100) =
       Inl \<lparr>error_class = MaxRetriesErrorClass, message = ''Function failed after 0 retries: Fail 1''\<rparr>
   \<and> calls (snd (retry (mockFunction 5) (- 2) 100)) = 1
   \<and> fst (retry (mockFunction 5) (- 2) 100) =
       Inl \<lparr>error_class = MaxRetriesErrorClass, message = ''Function failed after -2 retries: Fail 1''\<rparr>"
proof -
  have f: "mockFunction 5 0 = Inl (ThrownError (new_Error ''Fail 1''))"
    by (simp add: mockFunction_def number_to_string_def string_of_nat.simps)
  have e0: "MaxRetriesError 0 (normalizeError (ThrownError (new_Error ''Fail 1''))) =
      \<lparr>error_class = MaxRetriesErrorClass, message = ''Function failed after 0 retries: Fail 1''\<rparr>"
    by (simp add: MaxRetriesError_def normalizeError_def new_Error_def
          number_to_string_def string_of_nat.simps)
  have e2: "MaxRetriesError (- 2) (normalizeError (ThrownError (new_Error ''Fail 1''))) =
      \<lparr>error_class = MaxRetriesErrorClass, message = ''Function failed after -2 retries: Fail 1''\<rparr>"
    by (simp add: MaxRetriesError_def normalizeError_def new_Error_def
          number_to_string_def string_of_nat.simps)
  from retry_limit_below_two_calls_once [where n = 0 and fn = "mockFunction 5" and d = 100]
       retry_limit_below_two_calls_once [where n = "- 2" and fn = "mockFunction 5" and d = 100]
  show ?thesis
    by (simp add: f e0 e2)
qed


subsection \<open>Sorting and searching\<close>

lemma mset_insort_cmp: "mset (insort_cmp cmp x xs) = add_mset x (mset xs)"
  by (induction xs) auto

lemma mset_sort_by_comparator: "mset (sort_by_comparator cmp xs) = mset xs"
  by (induction xs) (auto simp: sort_by_comparator_def mset_insort_cmp)

lemma set_sort_by_comparator: "set (sort_by_comparator cmp xs) = set xs"
  using mset_sort_by_comparator [of cmp xs] by (metis set_mset_mset)

lemma sorted_insort_cmp:
  assumes tot: "\<And>a b. cmp a b \<le> 0 \<or> cmp b a \<le> 0"
    and tr: "\<And>a b c. cmp a b \<le> 0 \<Longrightarrow> cmp b c \<le> 0 \<Longrightarrow> cmp a c \<le> 0"
    and "sorted_wrt (\<lambda>a b. cmp a b \<le> 0) xs"
  shows "sorted_wrt (\<lambda>a b. cmp a b \<le> 0) (insort_cmp cmp x xs)"
  using assms(3)
proof (induction xs)
  case Nil
  then show ?case by simp
next
  case (Cons y ys)
  show ?case
  proof (cases "cmp x y \<le> 0")
    case True
    with Cons.prems tr show ?thesis by auto
  next
    case False
    with tot have yx: "cmp y x \<le> 0" by blast
    have "set (insort_cmp cmp x ys) = insert x (set ys)"
      using mset_insort_cmp [of cmp x ys] by (metis set_mset_add_mset_insert set_mset_mset)
    with False yx Cons show ?thesis by auto
  qed
qed

lemma sorted_sort_by_comparator:
  assumes "\<And>a b. cmp a b \<le> 0 \<or> cmp b a \<le> 0"
    and "\<And>a b c. cmp a b \<le> 0 \<Longrightarrow> cmp b c \<le> 0 \<Longrightarrow> cmp a c \<le> 0"
  shows "sorted_wrt (\<lambda>a b. cmp a b \<le> 0) (sort_by_comparator cmp xs)"
proof (induction xs)
  case Nil
  then show ?case by (simp add: sort_by_comparator_def)
next
  case (Cons x xs)
  have "sort_by_comparator cmp (x # xs) = insort_cmp cmp x (sort_by_comparator cmp xs)"
    by (simp add: sort_by_comparator_def)
  with sorted_insort_cmp [of cmp, OF assms Cons.IH] show ?case by simp
qed

lemma compareJobs_total: "compareJobs a b \<le> 0 \<or> compareJobs b a \<le> 0"
  by (auto simp: compareJobs_def)

lemma compareJobs_le_trans:
  "compareJobs a b \<le> 0 \<Longrightarrow> compareJobs b c \<le> 0 \<Longrightarrow> compareJobs a c \<le> 0"
  by (auto simp: compareJobs_def split: if_splits)

lemma sorted_sort_by_comparator_compareJobs:
  "sorted_wrt (\<lambda>a b. compareJobs a b \<le> 0) (sort_by_comparator compareJobs xs)"
  by (rule sorted_sort_by_comparator) (use compareJobs_total compareJobs_le_trans in blast)+


lemma find_sorted_wrt_least:
  "sorted_wrt R xs \<Longrightarrow> find P xs = Some w \<Longrightarrow>
     w \<in> set xs \<and> P w \<and> (\<forall>j\<in>set xs. P j \<longrightarrow> j = w \<or> R w j)"
  by (induction xs) (auto split: if_splits)

lemma find_by_key_distinct:
  "distinct (map f xs) \<Longrightarrow> w \<in> set xs \<Longrightarrow> find (\<lambda>j. f j = f w) xs = Some w"
  by (induction xs) (auto simp: image_iff)

lemma find_update_first:
  "find P xs = Some w \<Longrightarrow> P (g w) \<Longrightarrow> find P (update_first P g xs) = Some (g w)"
  by (induction xs) (auto split: if_splits)

lemma find_Some_in: "find P xs = Some w \<Longrightarrow> w \<in> set xs \<and> P w"
  by (induction xs) (auto split: if_splits)

lemma mset_update_first:
  "find P xs = Some w \<Longrightarrow> mset (update_first P g xs) = add_mset (g w) (mset xs - {#w#})"
proof (induction xs)
  case Nil
  then show ?case by simp
next
  case (Cons x xs)
  show ?case
  proof (cases "P x")
    case True
    with Cons.prems show ?thesis by simp
  next
    case False
    with Cons.prems have f: "find P xs = Some w" by simp
    then have "w \<in># mset xs" using find_Some_in by fastforce
    with Cons.IH [OF f] False show ?thesis by simp
  qed
qed

lemma find_exists: "\<exists>j\<in>set xs. P j \<Longrightarrow> \<exists>w. find P xs = Some w"
  by (cases "find P xs") (auto simp: find_None_iff)

lemma distinct_ids_sort_by_comparator:
  "distinct (map f (sort_by_comparator cmp xs)) = distinct (map f xs)"
proof -
  have "mset (map f (sort_by_comparator cmp xs)) = mset (map f xs)"
    by (simp add: mset_sort_by_comparator)
  then show ?thesis by (rule mset_eq_imp_distinct_iff)
qed

subsection \<open>Leasing with the mock client\<close>

lemma Mock_acquireJob_least:
  assumes d: "distinct (map job_id (jobs S))"
    and ex: "\<exists>j\<in>set (jobs S). state j = waiting \<and> job_id j \<notin> set (lockedJobsIds S)"
  shows "\<exists>w. w \<in> set (jobs S) \<and> state w = waiting \<and> job_id w \<notin> set (lockedJobsIds S)
     \<and> (\<forall>j\<in>set (jobs S). state j = waiting \<and> job_id j \<notin> set (lockedJobsIds S)
            \<longrightarrow> compareJobs w j \<le> 0)
     \<and> fst (Mock_acquireJob now S) =
          Inr (w\<lparr>state := active, errorMessage := Undefined, updatedAt := now\<rparr>)
     \<and> find (\<lambda>j. job_id j = job_id w) (jobs (snd (Mock_acquireJob now S))) =
          Some (w\<lparr>state := active, errorMessage := Undefined, updatedAt := now\<rparr>)
     \<and> mset (jobs (snd (Mock_acquireJob now S))) =
          add_mset (w\<lparr>state := active, errorMessage := Undefined, updatedAt := now\<rparr>)
            (mset (jobs S) - {#w#})
     \<and> lockedJobsIds (snd (Mock_acquireJob now S)) =
          filter (\<lambda>i. i \<noteq> job_id w) (lockedJobsIds S)"
proof -
  let ?P = "\<lambda>job. state job = waiting \<and> job_id job \<notin> set (lockedJobsIds S)"
  let ?xs = "sort_by_comparator compareJobs (jobs S)"
  let ?upd = "\<lambda>j::'a Job. j\<lparr>state := active, errorMessage := Undefined, updatedAt := now\<rparr>"
  from ex have "\<exists>j\<in>set ?xs. ?P j" by (simp add: set_sort_by_comparator)
  then have "\<exists>w. find ?P ?xs = Some w" by (rule find_exists)
  then obtain w where w: "find ?P ?xs = Some w" ..
  note fl = find_sorted_wrt_least [OF sorted_sort_by_comparator_compareJobs w]
  from fl have win: "w \<in> set ?xs" by (rule conjunct1)
  from fl have Pw: "?P w" by simp
  from fl have least: "\<forall>j\<in>set ?xs. ?P j \<longrightarrow> j = w \<or> compareJobs w j \<le> 0"
    by simp
  have ww: "compareJobs w w \<le> 0" by (simp add: compareJobs_def)
  have d': "distinct (map job_id ?xs)" using d by (simp add: distinct_ids_sort_by_comparator)
  have fid: "find (\<lambda>j. job_id j = job_id w) ?xs = Some w"
    using d' win by (rule find_by_key_distinct)
  have fid': "find (\<lambda>j. job_id j = job_id w) (update_first (\<lambda>j. job_id j = job_id w) ?upd ?xs)
      = Some (?upd w)"
    using fid by (rule find_update_first) simp
  have ms: "mset (update_first (\<lambda>j. job_id j = job_id w) ?upd ?xs)
      = add_mset (?upd w) (mset (jobs S) - {#w#})"
    using mset_update_first [OF fid, of ?upd] by (simp add: mset_sort_by_comparator)
  have res: "Mock_acquireJob now S =
     (Inr (?upd w),
      S\<lparr>jobs := update_first (\<lambda>j. job_id j = job_id w) ?upd ?xs,
        lockedJobsIds := filter (\<lambda>i. i \<noteq> job_id w) (lockedJobsIds S @ [job_id w])\<rparr>)"
    by (simp add: Mock_acquireJob_def Mock_updateJobStateById_def Let_def w fid)
  have "\<forall>j\<in>set (jobs S). ?P j \<longrightarrow> compareJobs w j \<le> 0"
  proof (intro ballI impI)
    fix j assume "j \<in> set (jobs S)" and "?P j"
    with least have "j = w \<or> compareJobs w j \<le> 0"
      by (simp add: set_sort_by_comparator)
    with ww show "compareJobs w j \<le> 0" by blast
  qed
  moreover have "w \<in> set (jobs S)" using win by (simp add: set_sort_by_comparator)
  ultimately show ?thesis
    using Pw fid' ms by (intro exI [of _ w]) (simp add: res)
qed

lemma Mock_acquireJob_none:
  assumes "\<forall>j\<in>set (jobs S). state j \<noteq> waiting"
  shows "Mock_acquireJob now S =
     (Inl AcquirableJobNotFoundError, S\<lparr>jobs := sort_by_comparator compareJobs (jobs S)\<rparr>)"
proof -
  have "find (\<lambda>job. state job = waiting \<and> job_id job \<notin> set (lockedJobsIds S))
          (sort_by_comparator compareJobs (jobs S)) = None"
    using assms by (auto simp: find_None_iff set_sort_by_comparator)
  then show ?thesis
    by (simp add: Mock_acquireJob_def Let_def)
qed

subsection \<open>Leasing with the SQL clients\<close>

lemma same_id_same_job:
  "distinct (map job_id js) \<Longrightarrow> w \<in> set js \<Longrightarrow> j \<in> set js \<Longrightarrow> job_id w = job_id j \<Longrightarrow> w = j"
  by (meson distinct_map inj_onD)

lemma least_waitingI:
  assumes "distinct (map job_id js)" and "w \<in> set js" and "state w = waiting"
    and "job_id w \<notin> set locked"
    and le: "\<forall>j\<in>set js. state j = waiting \<and> job_id j \<notin> set locked \<longrightarrow> compareJobs w j \<le> 0"
  shows "least_waiting w js locked"
  unfolding least_waiting_def
proof (intro conjI ballI impI)
  fix j assume j: "j \<in> set js" and e: "state j = waiting \<and> job_id j \<notin> set locked \<and> j \<noteq> w"
  with le have "compareJobs w j \<le> 0" by blast
  moreover have "compareJobs w j \<noteq> 0"
  proof
    assume "compareJobs w j = 0"
    then have "job_id w = job_id j" by (simp add: compareJobs_zero_iff)
    with assms(1,2) j have "w = j" by (rule same_id_same_job)
    with e show False by simp
  qed
  ultimately show "compareJobs w j < 0" by simp
qed (use assms in simp_all)

lemma order_by_dequeue_le:
  "order_by [Desc priority, Asc createdAt, Asc job_id] a b \<le> 0 \<longleftrightarrow> compareJobs a b \<le> 0"
  by (auto simp: compareJobs_def)

lemma sorted_dequeue_order:
  "sorted_wrt (\<lambda>a b. compareJobs a b \<le> 0)
     (sort_by_comparator (order_by [Desc priority, Asc createdAt, Asc job_id]) xs)"
proof -
  let ?c = "order_by [Desc priority, Asc createdAt, Asc job_id] :: 'a Job \<Rightarrow> 'a Job \<Rightarrow> int"
  have "sorted_wrt (\<lambda>a b. ?c a b \<le> 0) (sort_by_comparator ?c xs)"
  proof (rule sorted_sort_by_comparator)
    fix a b :: "'a Job"
    show "?c a b \<le> 0 \<or> ?c b a \<le> 0"
      unfolding order_by_dequeue_le by (rule compareJobs_total)
  next
    fix a b c :: "'a Job"
    assume "?c a b \<le> 0" and "?c b c \<le> 0"
    then show "?c a c \<le> 0"
      unfolding order_by_dequeue_le by (rule compareJobs_le_trans)
  qed
  then show ?thesis
    unfolding order_by_dequeue_le .
qed

lemma select_waiting_least:
  assumes d: "distinct (map job_id (rows T))"
    and ex: "\<exists>j\<in>set (rows T). state j = waiting \<and> job_id j \<notin> set (rowLocks T)"
  shows "\<exists>w. select_waiting_for_update_skip_locked T = [w]
           \<and> least_waiting w (rows T) (rowLocks T)"
proof -
  let ?P = "\<lambda>r. state r = waiting \<and> job_id r \<notin> set (rowLocks T)"
  let ?xs = "sort_by_comparator (order_by [Desc priority, Asc createdAt, Asc job_id])
               (filter ?P (rows T))"
  have set_xs: "set ?xs = {r \<in> set (rows T). ?P r}"
    by (simp add: set_sort_by_comparator)
  from ex have "set ?xs \<noteq> {}" unfolding set_xs by blast
  then have "?xs \<noteq> []" by (simp only: set_empty not_False_eq_True)
  then obtain w ys where xs: "?xs = w # ys" by (cases ?xs) simp_all
  have srt: "sorted_wrt (\<lambda>a b. compareJobs a b \<le> 0) (w # ys)"
    using sorted_dequeue_order [of "filter ?P (rows T)"] by (simp add: xs)
  have "w \<in> set ?xs" by (simp add: xs)
  then have w: "w \<in> set (rows T) \<and> ?P w"
    unfolding set_xs by simp
  have "\<forall>j\<in>set (rows T). ?P j \<longrightarrow> compareJobs w j \<le> 0"
  proof (intro ballI impI)
    fix j assume "j \<in> set (rows T)" and "?P j"
    then have "j \<in> set ?xs" by (simp add: set_xs)
    then have "j = w \<or> j \<in> set ys" by (simp add: xs)
    then show "compareJobs w j \<le> 0"
      using srt by (auto simp: compareJobs_def)
  qed
  with d w have "least_waiting w (rows T) (rowLocks T)"
    by (intro least_waitingI) simp_all
  moreover have "select_waiting_for_update_skip_locked T = [w]"
    by (simp add: select_waiting_for_update_skip_locked_def xs)
  ultimately show ?thesis by blast
qed

lemma filter_by_key_distinct:
  "distinct (map f xs) \<Longrightarrow> w \<in> set xs \<Longrightarrow> filter (\<lambda>r. f r = f w) xs = [w]"
proof (induction xs)
  case Nil
  then show ?case by simp
next
  case (Cons x xs)
  show ?case
  proof (cases "x = w")
    case True
    have "\<forall>r\<in>set xs. f r \<noteq> f w" using Cons.prems(1) True by (auto simp: image_iff)
    then have "filter (\<lambda>r. f r = f w) xs = []" by (simp add: filter_empty_conv)
    with True show ?thesis by simp
  next
    case False
    with Cons.prems have w: "w \<in> set xs" and n: "f x \<noteq> f w" by (auto simp: image_iff)
    from Cons.IH [OF _ w] Cons.prems(1) n show ?thesis by simp
  qed
qed

lemma filter_after_update:
  assumes "\<And>r. f (g r) = f r"
  shows "filter (\<lambda>r. f r = i) (map (\<lambda>r. if f r = i then g r else r) xs)
       = map g (filter (\<lambda>r. f r = i) xs)"
  by (induction xs) (simp_all add: assms)


lemma select_waiting_txn [simp]:
  "select_waiting_for_update_skip_locked (T\<lparr>txn := x\<rparr>) = select_waiting_for_update_skip_locked T"
  by (simp add: select_waiting_for_update_skip_locked_def)

lemma PostgreSql_begin_fields [simp]:
  "rows (PostgreSql_beginTransaction T) = rows T"
  "rowLocks (PostgreSql_beginTransaction T) = rowLocks T"
  "serial (PostgreSql_beginTransaction T) = serial T"
  "select_waiting_for_update_skip_locked (PostgreSql_beginTransaction T)
     = select_waiting_for_update_skip_locked T"
  by (simp_all add: PostgreSql_beginTransaction_def split: option.split)

lemma PostgreSql_acquireJob_least:
  assumes d: "distinct (map job_id (rows T))"
    and ex: "\<exists>j\<in>set (rows T). state j = waiting \<and> job_id j \<notin> set (rowLocks T)"
  shows "\<exists>w. least_waiting w (rows T) (rowLocks T)
     \<and> PostgreSql_acquireJob now T =
         (Inr (w\<lparr>state := active, errorMessage := Undefined, updatedAt := now\<rparr>),
          T\<lparr>rows := map (\<lambda>r. if job_id r = job_id w
                               then r\<lparr>state := active, errorMessage := Null, updatedAt := now\<rparr>
                               else r) (rows T),
            txn := None\<rparr>)"
proof -
  from select_waiting_least [OF d ex] obtain w where
    sel: "select_waiting_for_update_skip_locked T = [w]"
    and lw: "least_waiting w (rows T) (rowLocks T)" by blast
  from lw have win: "w \<in> set (rows T)" by (simp add: least_waiting_def)
  have f: "filter (\<lambda>r. job_id r = job_id w) (rows T) = [w]"
    using d win by (rule filter_by_key_distinct)
  have "PostgreSql_acquireJob now T =
         (Inr (w\<lparr>state := active, errorMessage := Undefined, updatedAt := now\<rparr>),
          T\<lparr>rows := map (\<lambda>r. if job_id r = job_id w
                               then r\<lparr>state := active, errorMessage := Null, updatedAt := now\<rparr>
                               else r) (rows T),
            txn := None\<rparr>)"
    by (simp add: PostgreSql_acquireJob_def Let_def sel PostgreSql_updateJobStateById_def
          PostgreSql_update_returning_def f bind_parameter_def or_undefined_def
          commitTransaction_def PostgreSql_beginTransaction_def split: option.split)
  with lw show ?thesis by blast
qed

lemma MySql_acquireJob_least:
  assumes d: "distinct (map job_id (rows T))"
    and ex: "\<exists>j\<in>set (rows T). state j = waiting \<and> job_id j \<notin> set (rowLocks T)"
  shows "\<exists>w. least_waiting w (rows T) (rowLocks T)
     \<and> MySql_acquireJob now T =
         (Inr (w\<lparr>state := active, errorMessage := Undefined, updatedAt := now\<rparr>),
          T\<lparr>rows := map (\<lambda>r. if job_id r = job_id w
                               then r\<lparr>state := active, errorMessage := Null, updatedAt := now\<rparr>
                               else r) (rows T),
            txn := None\<rparr>)"
proof -
  from select_waiting_least [OF d ex] obtain w where
    sel: "select_waiting_for_update_skip_locked T = [w]"
    and lw: "least_waiting w (rows T) (rowLocks T)" by blast
  from lw have win: "w \<in> set (rows T)" and sw: "state w = waiting"
    by (simp_all add: least_waiting_def)
  let ?upd = "\<lambda>r::'a Job. r\<lparr>state := active, errorMessage := Null, updatedAt := now\<rparr>"
  have f: "filter (\<lambda>r. job_id r = job_id w) (rows T) = [w]"
    using d win by (rule filter_by_key_distinct)
  have m: "map (\<lambda>r. if job_id r = job_id w
                    then if state r = active \<and> errorMessage r = Null then r else ?upd r
                    else r) (rows T)
         = map (\<lambda>r. if job_id r = job_id w then ?upd r else r) (rows T)"
  proof (rule map_cong [OF refl])
    fix r assume r: "r \<in> set (rows T)"
    show "(if job_id r = job_id w
           then if state r = active \<and> errorMessage r = Null then r else ?upd r else r)
        = (if job_id r = job_id w then ?upd r else r)"
    proof (cases "job_id r = job_id w")
      case True
      with d r win have "r = w" by (intro same_id_same_job [of "rows T"]) simp_all
      with sw show ?thesis by simp
    next
      case False
      then show ?thesis by simp
    qed
  qed
  have f': "filter (\<lambda>r. job_id r = job_id w)
              (map (\<lambda>r. if job_id r = job_id w then ?upd r else r) (rows T)) = [?upd w]"
    using filter_after_update [of job_id ?upd "job_id w" "rows T"] by (simp add: f)
  have "MySql_acquireJob now T =
         (Inr (w\<lparr>state := active, errorMessage := Undefined, updatedAt := now\<rparr>),
          T\<lparr>rows := map (\<lambda>r. if job_id r = job_id w then ?upd r else r) (rows T),
            txn := None\<rparr>)"
    by (simp add: MySql_acquireJob_def Let_def sel MySql_updateJobStateById_def
          MySql_update_def MySql_beginTransaction_def select_by_id_def m f'
          bind_parameter_def or_undefined_def commitTransaction_def)
  with lw show ?thesis by blast
qed

lemma select_waiting_none:
  assumes "\<forall>j\<in>set (rows T). state j \<noteq> waiting"
  shows "select_waiting_for_update_skip_locked T = []"
proof -
  have "filter (\<lambda>r. state r = waiting \<and> job_id r \<notin> set (rowLocks T)) (rows T) = []"
    using assms by (simp add: filter_empty_conv)
  then show ?thesis
    by (simp add: select_waiting_for_update_skip_locked_def sort_by_comparator_def)
qed

lemma PostgreSql_acquireJob_none:
  assumes "\<forall>j\<in>set (rows T). state j \<noteq> waiting" and "txn T = None"
  shows "PostgreSql_acquireJob now T = (Inl AcquirableJobNotFoundError, T)"
  using assms
  by (simp add: PostgreSql_acquireJob_def Let_def select_waiting_none
        PostgreSql_beginTransaction_def rollbackTransaction_def)

lemma MySql_acquireJob_none:
  assumes "\<forall>j\<in>set (rows T). state j \<noteq> waiting" and "txn T = None"
  shows "MySql_acquireJob now T = (Inl AcquirableJobNotFoundError, T)"
  using assms
  by (simp add: MySql_acquireJob_def Let_def select_waiting_none
        MySql_beginTransaction_def rollbackTransaction_def)

text \<open>
  Claim C1 says that, on a collection that holds a waiting job, \<open>acquireJob\<close> returns
  the least waiting job, and it sets locked jobs aside for the mock client only. The
  SQL clients select with \<open>FOR UPDATE SKIP LOCKED\<close>: a waiting row that another session
  holds locked is passed over. While job 2, the least waiting job of the sample table,
  is locked elsewhere, both SQL clients lease job 3; while all three waiting rows are
  locked elsewhere, both throw \<open>AcquirableJobNotFoundError\<close> although the table holds
  waiting jobs.
\<close>

theorem acquireJob_least_waiting_counterexample:
  "sample_job 2 waiting 5 1010 Null \<in> set (rows sample_locked_table)
   \<and> sample_job 3 waiting 4 1020 Null \<in> set (rows sample_locked_table)
   \<and> compareJobs (sample_job 2 waiting 5 1010 Null) (sample_job 3 waiting 4 1020 Null) < 0
   \<and> fst (PostgreSql_acquireJob 2000 sample_locked_table) =
       Inr \<lparr>job_id = 3, payload = (), state = active, priority = 4, errorMessage = Undefined,
            createdAt = 1020, updatedAt = 2000\<rparr>
   \<and> fst (MySql_acquireJob 2000 sample_locked_table) =
       Inr \<lparr>job_id = 3, payload = (), state = active, priority = 4, errorMessage = Undefined,
            createdAt = 1020, updatedAt = 2000\<rparr>
   \<and> sample_job 1 waiting 3 1000 Null \<in> set (rows sample_all_locked_table)
   \<and> fst (PostgreSql_acquireJob 2000 sample_all_locked_table) = Inl AcquirableJobNotFoundError
   \<and> fst (MySql_acquireJob 2000 sample_all_locked_table) = Inl AcquirableJobNotFoundError"
proof -
  have r: "sample_job 2 waiting 5 1010 Null \<in> set (rows sample_locked_table)"
    "sample_job 3 waiting 4 1020 Null \<in> set (rows sample_locked_table)"
    "sample_job 1 waiting 3 1000 Null \<in> set (rows sample_all_locked_table)"
    by (simp_all add: sample_locked_table_def sample_all_locked_table_def sample_table_def)
  have c: "compareJobs (sample_job 2 waiting 5 1010 Null) (sample_job 3 waiting 4 1020 Null) < 0"
    by (simp add: compareJobs_def sample_job_def)
  have l: "fst (PostgreSql_acquireJob 2000 sample_locked_table) =
       Inr \<lparr>job_id = 3, payload = (), state = active, priority = 4, errorMessage = Undefined,
            createdAt = 1020, updatedAt = 2000\<rparr>"
    "fst (MySql_acquireJob 2000 sample_locked_table) =
       Inr \<lparr>job_id = 3, payload = (), state = active, priority = 4, errorMessage = Undefined,
            createdAt = 1020, updatedAt = 2000\<rparr>"
    by code_simp+
  have a: "fst (PostgreSql_acquireJob 2000 sample_all_locked_table) = Inl AcquirableJobNotFoundError"
    "fst (MySql_acquireJob 2000 sample_all_locked_table) = Inl AcquirableJobNotFoundError"
    by code_simp+
  from r c l a show ?thesis by simp
qed

text \<open>
  Claim C1, amended. Take a job collection with distinct ids (the id is the primary
  key) that holds a waiting job that is not locked: for the mock client its id is not
  in \<open>lockedJobsIds\<close>, for the SQL clients no other session holds its row locked. Then
  \<open>acquireJob\<close> of the mock client, of the PostgreSQL client and of the MySQL client
  returns the job \<open>w\<close> that the dequeue order (priority descending, then \<open>createdAt\<close>
  ascending, then id ascending) puts before every other waiting, unlocked job, with its
  state changed to \<open>active\<close>; and the job stored under that id is in state \<open>active\<close>
  afterwards.
\<close>

theorem acquireJob_leases_least_waiting:
  "(distinct (map job_id (jobs M))
      \<and> (\<exists>j\<in>set (jobs M). state j = waiting \<and> job_id j \<notin> set (lockedJobsIds M)) \<longrightarrow>
     (\<exists>w. least_waiting w (jobs M) (lockedJobsIds M)
        \<and> fst (Mock_acquireJob now M) =
             Inr (w\<lparr>state := active, errorMessage := Undefined, updatedAt := now\<rparr>)
        \<and> find (\<lambda>j. job_id j = job_id w) (jobs (snd (Mock_acquireJob now M))) =
             Some (w\<lparr>state := active, errorMessage := Undefined, updatedAt := now\<rparr>)))
   \<and> (distinct (map job_id (rows T))
      \<and> (\<exists>j\<in>set (rows T). state j = waiting \<and> job_id j \<notin> set (rowLocks T)) \<longrightarrow>
     (\<exists>w. least_waiting w (rows T) (rowLocks T)
        \<and> fst (PostgreSql_acquireJob now T) =
             Inr (w\<lparr>state := active, errorMessage := Undefined, updatedAt := now\<rparr>)
        \<and> select_by_id (job_id w) (snd (PostgreSql_acquireJob now T)) =
             [w\<lparr>state := active, errorMessage := Null, updatedAt := now\<rparr>]
        \<and> fst (MySql_acquireJob now T) =
             Inr (w\<lparr>state := active, errorMessage := Undefined, updatedAt := now\<rparr>)
        \<and> select_by_id (job_id w) (snd (MySql_acquireJob now T)) =
             [w\<lparr>state := active, errorMessage := Null, updatedAt := now\<rparr>]))"
proof (intro conjI impI)
  assume h: "distinct (map job_id (jobs M))
      \<and> (\<exists>j\<in>set (jobs M). state j = waiting \<and> job_id j \<notin> set (lockedJobsIds M))"
  then have d: "distinct (map job_id (jobs M))"
    and ex: "\<exists>j\<in>set (jobs M). state j = waiting \<and> job_id j \<notin> set (lockedJobsIds M)"
    by simp_all
  from Mock_acquireJob_least [OF d ex, of now] obtain w where
    w: "w \<in> set (jobs M)" "state w = waiting" "job_id w \<notin> set (lockedJobsIds M)"
    and le: "\<forall>j\<in>set (jobs M). state j = waiting \<and> job_id j \<notin> set (lockedJobsIds M)
               \<longrightarrow> compareJobs w j \<le> 0"
    and r: "fst (Mock_acquireJob now M) =
             Inr (w\<lparr>state := active, errorMessage := Undefined, updatedAt := now\<rparr>)"
       "find (\<lambda>j. job_id j = job_id w) (jobs (snd (Mock_acquireJob now M))) =
             Some (w\<lparr>state := active, errorMessage := Undefined, updatedAt := now\<rparr>)"
    by blast
  from d w le have "least_waiting w (jobs M) (lockedJobsIds M)"
    by (rule least_waitingI)
  with r show "\<exists>w. least_waiting w (jobs M) (lockedJobsIds M)
        \<and> fst (Mock_acquireJob now M) =
             Inr (w\<lparr>state := active, errorMessage := Undefined, updatedAt := now\<rparr>)
        \<and> find (\<lambda>j. job_id j = job_id w) (jobs (snd (Mock_acquireJob now M))) =
             Some (w\<lparr>state := active, errorMessage := Undefined, updatedAt := now\<rparr>)"
    by blast
next
  assume h: "distinct (map job_id (rows T))
      \<and> (\<exists>j\<in>set (rows T). state j = waiting \<and> job_id j \<notin> set (rowLocks T))"
  then have d: "distinct (map job_id (rows T))"
    and ex: "\<exists>j\<in>set (rows T). state j = waiting \<and> job_id j \<notin> set (rowLocks T)"
    by simp_all
  let ?upd = "\<lambda>r::'b Job. r\<lparr>state := active, errorMessage := Null, updatedAt := now\<rparr>"
  from PostgreSql_acquireJob_least [OF d ex, of now] obtain w where
    lw: "least_waiting w (rows T) (rowLocks T)"
    and pg: "PostgreSql_acquireJob now T =
         (Inr (w\<lparr>state := active, errorMessage := Undefined, updatedAt := now\<rparr>),
          T\<lparr>rows := map (\<lambda>r. if job_id r = job_id w then ?upd r else r) (rows T),
            txn := None\<rparr>)"
    by blast
  from MySql_acquireJob_least [OF d ex, of now] obtain w' where
    lw': "least_waiting w' (rows T) (rowLocks T)"
    and my': "MySql_acquireJob now T =
         (Inr (w'\<lparr>state := active, errorMessage := Undefined, updatedAt := now\<rparr>),
          T\<lparr>rows := map (\<lambda>r. if job_id r = job_id w' then ?upd r else r) (rows T),
            txn := None\<rparr>)"
    by blast
  have "w' = w"
  proof (rule ccontr)
    assume n: "w' \<noteq> w"
    with lw lw' have "compareJobs w w' < 0" and "compareJobs w' w < 0"
      by (auto simp: least_waiting_def)
    then show False by (auto simp: compareJobs_def split: if_splits)
  qed
  with my' have my: "MySql_acquireJob now T =
         (Inr (w\<lparr>state := active, errorMessage := Undefined, updatedAt := now\<rparr>),
          T\<lparr>rows := map (\<lambda>r. if job_id r = job_id w then ?upd r else r) (rows T),
            txn := None\<rparr>)"
    by simp
  from lw have win: "w \<in> set (rows T)" by (simp add: least_waiting_def)
  have f: "filter (\<lambda>r. job_id r = job_id w) (rows T) = [w]"
    using d win by (rule filter_by_key_distinct)
  have sel: "filter (\<lambda>r. job_id r = job_id w)
              (map (\<lambda>r. if job_id r = job_id w then ?upd r else r) (rows T)) = [?upd w]"
    using filter_after_update [of job_id ?upd "job_id w" "rows T"] by (simp add: f)
  show "\<exists>w. least_waiting w (rows T) (rowLocks T)
        \<and> fst (PostgreSql_acquireJob now T) =
             Inr (w\<lparr>state := active, errorMessage := Undefined, updatedAt := now\<rparr>)
        \<and> select_by_id (job_id w) (snd (PostgreSql_acquireJob now T)) =
             [w\<lparr>state := active, errorMessage := Null, updatedAt := now\<rparr>]
        \<and> fst (MySql_acquireJob now T) =
             Inr (w\<lparr>state := active, errorMessage := Undefined, updatedAt := now\<rparr>)
        \<and> select_by_id (job_id w) (snd (MySql_acquireJob now T)) =
             [w\<lparr>state := active, errorMessage := Null, updatedAt := now\<rparr>]"
    using lw by (intro exI [of _ w]) (simp add: pg my select_by_id_def sel)
qed

lemma sample_mock_acquire:
  "fst (Mock_acquireJob 2000 sample_mock) =
     Inr \<lparr>job_id = 2, payload = (), state = active, priority = 5, errorMessage = Undefined,
          createdAt = 1010, updatedAt = 2000\<rparr>"
  by (simp add: Mock_acquireJob_def Mock_updateJobStateById_def sample_mock_def sample_job_def
        sort_by_comparator_def compareJobs_def Let_def)

lemma sample_table_acquire:
  "fst (PostgreSql_acquireJob 2000 sample_table) =
     Inr \<lparr>job_id = 2, payload = (), state = active, priority = 5, errorMessage = Undefined,
          createdAt = 1010, updatedAt = 2000\<rparr>"
  "fst (MySql_acquireJob 2000 sample_table) =
     Inr \<lparr>job_id = 2, payload = (), state = active, priority = 5, errorMessage = Undefined,
          createdAt = 1010, updatedAt = 2000\<rparr>"
  by code_simp+

theorem acquireJob_leases_least_waiting_witness:
  "(\<exists>w. least_waiting w (jobs sample_mock) (lockedJobsIds sample_mock)
        \<and> fst (Mock_acquireJob 2000 sample_mock) =
             Inr (w\<lparr>state := active, errorMessage := Undefined, updatedAt := 2000\<rparr>)
        \<and> find (\<lambda>j. job_id j = job_id w) (jobs (snd (Mock_acquireJob 2000 sample_mock))) =
             Some (w\<lparr>state := active, errorMessage := Undefined, updatedAt := 2000\<rparr>))
   \<and> (\<exists>w. least_waiting w (rows sample_table) (rowLocks sample_table)
        \<and> fst (PostgreSql_acquireJob 2000 sample_table) =
             Inr (w\<lparr>state := active, errorMessage := Undefined, updatedAt := 2000\<rparr>)
        \<and> select_by_id (job_id w) (snd (PostgreSql_acquireJob 2000 sample_table)) =
             [w\<lparr>state := active, errorMessage := Null, updatedAt := 2000\<rparr>]
        \<and> fst (MySql_acquireJob 2000 sample_table) =
             Inr (w\<lparr>state := active, errorMessage := Undefined, updatedAt := 2000\<rparr>)
        \<and> select_by_id (job_id w) (snd (MySql_acquireJob 2000 sample_table)) =
             [w\<lparr>state := active, errorMessage := Null, updatedAt := 2000\<rparr>])
   \<and> fst (Mock_acquireJob 2000 sample_mock) =
       Inr \<lparr>job_id = 2, payload = (), state = active, priority = 5, errorMessage = Undefined,
          createdAt = 1010, updatedAt = 2000\<rparr>
   \<and> fst (PostgreSql_acquireJob 2000 sample_table) =
       Inr \<lparr>job_id = 2, payload = (), state = active, priority = 5, errorMessage = Undefined,
          createdAt = 1010, updatedAt = 2000\<rparr>"
proof -
  have h1: "distinct (map job_id (jobs sample_mock))
      \<and> (\<exists>j\<in>set (jobs sample_mock). state j = waiting \<and> job_id j \<notin> set (lockedJobsIds sample_mock))"
    by (simp add: sample_mock_def sample_job_def)
  have h2: "distinct (map job_id (rows sample_table))
      \<and> (\<exists>j\<in>set (rows sample_table). state j = waiting \<and> job_id j \<notin> set (rowLocks sample_table))"
    by (simp add: sample_table_def sample_job_def)
  from acquireJob_leases_least_waiting [of sample_mock 2000 sample_table] h1 h2
  show ?thesis
    by (simp only: sample_mock_acquire sample_table_acquire simp_thms)
qed

text \<open>
  Claim C2. On a job collection with no job in state \<open>waiting\<close>, \<open>acquireJob\<close> fails with
  \<open>AcquirableJobNotFoundError\<close>, an instance of \<open>JobNotFoundError\<close>, and every job is as it
  was: the mock client only sorts its array (the same jobs, as a multiset), and the SQL
  clients, called on a connection with no transaction open, roll back to the table
  they started from.
\<close>

theorem acquireJob_without_waiting_job:
  "((\<forall>j\<in>set (jobs M). state j \<noteq> waiting) \<longrightarrow>
      fst (Mock_acquireJob now M) = Inl AcquirableJobNotFoundError
      \<and> mset (jobs (snd (Mock_acquireJob now M))) = mset (jobs M)
      \<and> lockedJobsIds (snd (Mock_acquireJob now M)) = lockedJobsIds M)
   \<and> ((\<forall>j\<in>set (rows T). state j \<noteq> waiting) \<and> txn T = None \<longrightarrow>
      PostgreSql_acquireJob now T = (Inl AcquirableJobNotFoundError, T)
      \<and> MySql_acquireJob now T = (Inl AcquirableJobNotFoundError, T))
   \<and> error_class AcquirableJobNotFoundError = AcquirableJobNotFoundErrorClass
   \<and> instanceof AcquirableJobNotFoundError JobNotFoundErrorClass"
proof (intro conjI impI)
  assume h: "\<forall>j\<in>set (jobs M). state j \<noteq> waiting"
  from Mock_acquireJob_none [OF h, of now]
  show "fst (Mock_acquireJob now M) = Inl AcquirableJobNotFoundError"
    and "mset (jobs (snd (Mock_acquireJob now M))) = mset (jobs M)"
    and "lockedJobsIds (snd (Mock_acquireJob now M)) = lockedJobsIds M"
    by (simp_all add: mset_sort_by_comparator)
next
  assume h: "(\<forall>j\<in>set (rows T). state j \<noteq> waiting) \<and> txn T = None"
  then show "PostgreSql_acquireJob now T = (Inl AcquirableJobNotFoundError, T)"
    by (intro PostgreSql_acquireJob_none) simp_all
  from h show "MySql_acquireJob now T = (Inl AcquirableJobNotFoundError, T)"
    by (intro MySql_acquireJob_none) simp_all
qed (simp_all add: AcquirableJobNotFoundError_def instanceof_def)

theorem acquireJob_without_waiting_job_witness:
  "fst (Mock_acquireJob 2000 sample_idle_mock) = Inl AcquirableJobNotFoundError
   \<and> mset (jobs (snd (Mock_acquireJob 2000 sample_idle_mock))) = mset (jobs sample_idle_mock)
   \<and> PostgreSql_acquireJob 2000 sample_idle_table = (Inl AcquirableJobNotFoundError, sample_idle_table)
   \<and> MySql_acquireJob 2000 sample_idle_table = (Inl AcquirableJobNotFoundError, sample_idle_table)"
proof -
  have h1: "\<forall>j\<in>set (jobs sample_idle_mock). state j \<noteq> waiting"
    by (simp add: sample_idle_mock_def sample_job_def)
  have h2: "(\<forall>j\<in>set (rows sample_idle_table). state j \<noteq> waiting) \<and> txn sample_idle_table = None"
    by (simp add: sample_idle_table_def sample_job_def)
  from acquireJob_without_waiting_job [of sample_idle_mock 2000 sample_idle_table] h1 h2
  show ?thesis by simp
qed

text \<open>
  Claim C7. \<open>Queue.drain()\<close> removes exactly the waiting jobs: what is left is the
  collection with the waiting jobs filtered out, in the same order, so every active,
  completed or failed job is still there unchanged and no waiting job remains.
\<close>

theorem drain_removes_exactly_waiting:
  "jobs (snd (Queue_drain MockDatabasePoolClient M)) = filter (\<lambda>j. state j \<noteq> waiting) (jobs M)
   \<and> rows (snd (Queue_drain PostgreSqlPoolClient T)) = filter (\<lambda>j. state j \<noteq> waiting) (rows T)
   \<and> rows (snd (Queue_drain MySqlPoolClient T)) = filter (\<lambda>j. state j \<noteq> waiting) (rows T)
   \<and> (\<forall>j\<in>set (jobs M). state j \<in> {active, completed, failed} \<longrightarrow>
         j \<in> set (jobs (snd (Queue_drain MockDatabasePoolClient M))))
   \<and> (\<forall>j\<in>set (jobs (snd (Queue_drain MockDatabasePoolClient M))).
         j \<in> set (jobs M) \<and> state j \<noteq> waiting)
   \<and> fst (Queue_drain MockDatabasePoolClient M) = Inr ()"
  by (auto simp: Queue_drain_def MockDatabasePoolClient_def PostgreSqlPoolClient_def
        MySqlPoolClient_def Mock_deleteJobsByState_def PostgreSql_deleteJobsByState_def
        MySql_deleteJobsByState_def delete_where_state_in_def)

theorem drain_removes_exactly_waiting_witness:
  "jobs (snd (Queue_drain MockDatabasePoolClient sample_mock)) = [sample_job 4 active 9 1030 Undefined]
   \<and> jobs (snd (Queue_drain MockDatabasePoolClient sample_idle_mock)) = jobs sample_idle_mock
   \<and> sample_job 4 active 9 1030 Undefined \<in> set (jobs sample_mock)
   \<and> sample_job 4 active 9 1030 Undefined
        \<in> set (jobs (snd (Queue_drain MockDatabasePoolClient sample_mock)))"
  using drain_removes_exactly_waiting [of sample_mock sample_table]
        drain_removes_exactly_waiting [of sample_idle_mock sample_table]
  by (simp add: sample_mock_def sample_idle_mock_def sample_job_def)

subsection \<open>Returned error messages\<close>

lemma nonempty_or_undefined_or_undefined: "nonempty_or_undefined (or_undefined v)"
  by (simp add: nonempty_or_undefined_def or_undefined_def split: errmsg.split)

text \<open>
  Claim C10. Every job returned by \<open>insertJob\<close>, \<open>acquireJob\<close> or \<open>updateJobStateById\<close> of
  the PostgreSQL and of the MySQL client has an \<open>errorMessage\<close> that is \<open>undefined\<close> or a
  non-empty string, never \<open>null\<close> and never the empty string: each of them returns
  \<open>errorMessage || undefined\<close>.
\<close>

theorem returned_errorMessage_normalised:
  "returns_normalised (PostgreSql_insertJob pl st prio now T)
   \<and> returns_normalised (PostgreSql_acquireJob now T)
   \<and> returns_normalised (PostgreSql_updateJobStateById i st em now T)
   \<and> returns_normalised (MySql_insertJob pl st prio now T)
   \<and> returns_normalised (MySql_acquireJob now T)
   \<and> returns_normalised (MySql_updateJobStateById i st em now T)"
proof (intro conjI)
  show "returns_normalised (PostgreSql_insertJob pl st prio now T)"
    by (simp add: returns_normalised_def PostgreSql_insertJob_def
          nonempty_or_undefined_or_undefined split: prod.split)
  show "returns_normalised (PostgreSql_acquireJob now T)"
    by (simp add: returns_normalised_def PostgreSql_acquireJob_def Let_def
          nonempty_or_undefined_or_undefined split: prod.split list.split sum.split)
  show "returns_normalised (PostgreSql_updateJobStateById i st em now T)"
    by (simp add: returns_normalised_def PostgreSql_updateJobStateById_def
          nonempty_or_undefined_or_undefined split: prod.split list.split)
  show "returns_normalised (MySql_insertJob pl st prio now T)"
    by (simp add: returns_normalised_def MySql_insertJob_def
          nonempty_or_undefined_or_undefined split: prod.split list.split)
  show "returns_normalised (MySql_acquireJob now T)"
    by (simp add: returns_normalised_def MySql_acquireJob_def Let_def
          nonempty_or_undefined_or_undefined split: prod.split list.split sum.split)
  show "returns_normalised (MySql_updateJobStateById i st em now T)"
    by (simp add: returns_normalised_def MySql_updateJobStateById_def Let_def
          nonempty_or_undefined_or_undefined split: prod.split list.split)
qed

subsection \<open>The MySQL update\<close>

lemma MySql_update_select:
  "select_by_id i (MySql_update i st v now T)
     = map (\<lambda>r. if state r = st \<and> errorMessage r = v then r
                 else r\<lparr>state := st, errorMessage := v, updatedAt := now\<rparr>)
         (filter (\<lambda>r. job_id r = i) (rows T))"
proof -
  let ?upd = "\<lambda>r::'a Job. if state r = st \<and> errorMessage r = v then r
                      else r\<lparr>state := st, errorMessage := v, updatedAt := now\<rparr>"
  have "job_id (?upd r) = job_id r" for r by simp
  then show ?thesis
    unfolding select_by_id_def MySql_update_def Let_def
    using filter_after_update [of job_id ?upd i "rows T"] by simp
qed

lemma MySql_update_overwrites:
  "\<forall>r\<in>set (select_by_id i (MySql_update i st v now T)). state r = st \<and> errorMessage r = v"
  unfolding MySql_update_select by auto

lemma MySql_update_select_nonempty:
  assumes "\<exists>r\<in>set (rows T). job_id r = i"
  shows "select_by_id i (MySql_update i st v now T) \<noteq> []"
proof -
  from assms have "filter (\<lambda>r. job_id r = i) (rows T) \<noteq> []"
    by (simp add: filter_empty_conv)
  then show ?thesis
    unfolding MySql_update_select by simp
qed

text \<open>
  Claim C8 says that the MySQL \<open>updateJobStateById(id, 'completed')\<close>, called without an
  \<open>errorMessage\<close>, keeps the \<open>errorMessage\<close> the job had. The statement it runs is
  \<open>SET state = ?, errorMessage = ?\<close>: the column is assigned on every call. On the table
  whose job 7 carries \<open>'boom'\<close>, the stored value becomes \<open>NULL\<close> and the returned job has
  no \<open>errorMessage\<close>.
\<close>

theorem MySql_completed_keeps_errorMessage_counterexample:
  "map errorMessage (rows sample_stale_table) = [Str ''boom'']
   \<and> map errorMessage
        (rows (snd (MySql_updateJobStateById 7 completed None 3000 sample_stale_table))) = [Null]
   \<and> map_sum message errorMessage
        (fst (MySql_updateJobStateById 7 completed None 3000 sample_stale_table)) = Inr Undefined"
  by (simp add: MySql_updateJobStateById_def MySql_update_def select_by_id_def Let_def
        bind_parameter_def or_undefined_def sample_stale_table_def sample_job_def)

text \<open>
  Claim C8, amended. In the MySQL client, \<open>updateJobStateById(id, 'completed')\<close> called
  with no \<open>errorMessage\<close> argument on an existing job clears \<open>errorMessage\<close>, whatever it
  was before: the stored job has state \<open>completed\<close> and \<open>errorMessage\<close> \<open>NULL\<close>, and the
  returned job has state \<open>completed\<close> and no \<open>errorMessage\<close>.
\<close>

theorem MySql_completed_clears_errorMessage:
  assumes "\<exists>r\<in>set (rows T). job_id r = i"
  shows "(\<forall>r\<in>set (select_by_id i (snd (MySql_updateJobStateById i completed None now T))).
            state r = completed \<and> errorMessage r = Null)
       \<and> (\<exists>job. fst (MySql_updateJobStateById i completed None now T) = Inr job
              \<and> job_id job = i \<and> state job = completed \<and> errorMessage job = Undefined)"
proof -
  let ?T' = "MySql_update i completed Null now T"
  from MySql_update_select_nonempty [OF assms, of completed Null now]
  obtain job js where sel: "select_by_id i ?T' = job # js"
    by (cases "select_by_id i ?T'") simp_all
  have all: "\<forall>r\<in>set (select_by_id i ?T'). state r = completed \<and> errorMessage r = Null"
    by (rule MySql_update_overwrites)
  then have j: "state job = completed" "errorMessage job = Null"
    by (simp_all add: sel)
  have "job \<in> set (select_by_id i ?T')" by (simp add: sel)
  then have ji: "job_id job = i" by (simp add: select_by_id_def)
  have res: "MySql_updateJobStateById i completed None now T =
      (Inr (job\<lparr>errorMessage := Undefined\<rparr>), ?T')"
    by (simp add: MySql_updateJobStateById_def Let_def bind_parameter_def sel j or_undefined_def)
  show ?thesis
    using all j ji by (simp add: res)
qed

theorem MySql_completed_clears_errorMessage_witness:
  "(\<exists>r\<in>set (rows sample_stale_table). job_id r = 7 \<and> errorMessage r = Str ''boom'')
   \<and> list_all (\<lambda>r. state r = completed \<and> errorMessage r = Null)
        (select_by_id 7 (snd (MySql_updateJobStateById 7 completed None 3000 sample_stale_table)))
   \<and> (\<exists>job. fst (MySql_updateJobStateById 7 completed None 3000 sample_stale_table) = Inr job
              \<and> job_id job = 7 \<and> state job = completed \<and> errorMessage job = Undefined)"
proof -
  have h: "\<exists>r\<in>set (rows sample_stale_table). job_id r = 7"
    by (simp add: sample_stale_table_def sample_job_def)
  have b: "\<exists>r\<in>set (rows sample_stale_table). job_id r = 7 \<and> errorMessage r = Str ''boom''"
    by (simp add: sample_stale_table_def sample_job_def)
  note t = MySql_completed_clears_errorMessage [OF h, of 3000]
  from t have "list_all (\<lambda>r. state r = completed \<and> errorMessage r = Null)
        (select_by_id 7 (snd (MySql_updateJobStateById 7 completed None 3000 sample_stale_table)))"
    unfolding list_all_iff by (rule conjunct1)
  moreover from t have "\<exists>job. fst (MySql_updateJobStateById 7 completed None 3000 sample_stale_table) = Inr job
              \<and> job_id job = 7 \<and> state job = completed \<and> errorMessage job = Undefined"
    by (rule conjunct2)
  ultimately show ?thesis using b by blast
qed

text \<open>
  An empty message is stored as it is and returned as \<open>undefined\<close>.
\<close>

lemma updateJobStateById_empty_message_example:
  "map errorMessage
     (rows (snd (MySql_updateJobStateById 7 failed (Some []) 3000 sample_stale_table))) = [Str []]
   \<and> map_sum message errorMessage
        (fst (MySql_updateJobStateById 7 failed (Some []) 3000 sample_stale_table)) = Inr Undefined"
  by (simp add: MySql_updateJobStateById_def MySql_update_def select_by_id_def Let_def
        bind_parameter_def or_undefined_def sample_stale_table_def sample_job_def)

subsection \<open>The queue registry\<close>

lemma already_exists_message_contains:
  "sublist (''Queue with name '' @ [CHR 0x27] @ nm @ [CHR 0x27] @ '' already exists'')
     (already_exists_message nm)"
proof -
  have "already_exists_message nm =
      [] @ (''Queue with name '' @ [CHR 0x27] @ nm @ [CHR 0x27] @ '' already exists'') @ ''.''"
    by (simp add: already_exists_message_def)
  then show ?thesis unfolding sublist_def by blast
qed

text \<open>
  Claim C6. Constructing a queue under a name that the registry already holds throws
  an error whose message contains \<open>Queue with name '<name>' already exists\<close>, and the
  registry, with the rest of the process, is unchanged. Once \<open>close()\<close> of the queue
  registered under that name has completed (its workers and its pool closed without
  error), the name is free and constructing a queue with the same name succeeds.
\<close>

theorem duplicate_queue_name_rejected_until_closed:
  "(instances P nm \<noteq> None \<longrightarrow>
      new_Queue nm opts P = (Inl (new_Error (already_exists_message nm)), P)
      \<and> sublist (''Queue with name '' @ [CHR 0x27] @ nm @ [CHR 0x27] @ '' already exists'')
           (message (new_Error (already_exists_message nm))))
   \<and> (instances P nm = Some this \<and> heap P this = Some q \<and> queue_name q = nm \<longrightarrow>
      fst (Queue_close this None None P) = Inr ()
      \<and> instances (snd (Queue_close this None None P)) nm = None
      \<and> fst (new_Queue nm opts (snd (Queue_close this None None P))) = Inr (next_ref P)
      \<and> instances (snd (new_Queue nm opts (snd (Queue_close this None None P)))) nm
          = Some (next_ref P))"
proof (intro conjI impI)
  assume "instances P nm \<noteq> None"
  then show "new_Queue nm opts P = (Inl (new_Error (already_exists_message nm)), P)"
    by (simp add: new_Queue_def)
next
  show "sublist (''Queue with name '' @ [CHR 0x27] @ nm @ [CHR 0x27] @ '' already exists'')
           (message (new_Error (already_exists_message nm)))"
    using already_exists_message_contains [of nm] by (simp add: new_Error_def)
next
  assume h: "instances P nm = Some this \<and> heap P this = Some q \<and> queue_name q = nm"
  let ?P1 = "P\<lparr>heap := (heap P)(this \<mapsto> q\<lparr>queue_running := False\<rparr>)\<rparr>"
  have c: "Queue_close this None None P = (Inr (), ?P1\<lparr>instances := (instances ?P1)(nm := None)\<rparr>)"
    using h by (simp add: Queue_close_def Let_def)
  show "fst (Queue_close this None None P) = Inr ()"
    and "instances (snd (Queue_close this None None P)) nm = None"
    by (simp_all add: c)
  show "fst (new_Queue nm opts (snd (Queue_close this None None P))) = Inr (next_ref P)"
    by (simp add: c new_Queue_def Let_def)
  show "instances (snd (new_Queue nm opts (snd (Queue_close this None None P)))) nm
          = Some (next_ref P)"
    by (simp add: c new_Queue_def Let_def Queue_start_def split: option.split)
qed

theorem duplicate_queue_name_rejected_until_closed_witness:
  "instances sample_process ''Q'' = Some 0
   \<and> new_Queue ''Q'' None sample_process
       = (Inl (new_Error (already_exists_message ''Q'')), sample_process)
   \<and> message (new_Error (already_exists_message ''Q'')) = ''Queue with name 'Q' already exists.''
   \<and> fst (Queue_close 0 None None sample_process) = Inr ()
   \<and> fst (new_Queue ''Q'' None (snd (Queue_close 0 None None sample_process))) = Inr 1"
proof -
  have s: "sample_process =
     \<lparr>instances = [''Q'' \<mapsto> 0],
      heap = [0 \<mapsto> \<lparr>queue_name = ''Q'', queue_autostart = True, queue_running = True,
                     queue_workers = []\<rparr>],
      next_ref = 1\<rparr>"
    by (simp add: sample_process_def new_Queue_def initial_process_def Let_def Queue_start_def)
  have h1: "instances sample_process ''Q'' \<noteq> None" by (simp add: s)
  have h2: "instances sample_process ''Q'' = Some 0
      \<and> heap sample_process 0 = Some \<lparr>queue_name = ''Q'', queue_autostart = True,
             queue_running = True, queue_workers = []\<rparr>
      \<and> queue_name \<lparr>queue_name = ''Q'', queue_autostart = True,
             queue_running = True, queue_workers = []\<rparr> = ''Q''"
    by (simp add: s)
  have n: "next_ref sample_process = 1" by (simp add: s)
  have m: "message (new_Error (already_exists_message ''Q'')) = ''Queue with name 'Q' already exists.''"
    by (simp add: new_Error_def already_exists_message_def)
  from duplicate_queue_name_rejected_until_closed
         [of sample_process "''Q''" None 0 "\<lparr>queue_name = ''Q'', queue_autostart = True,
             queue_running = True, queue_workers = []\<rparr>"] h1 h2 n m
  show ?thesis by simp
qed

subsection \<open>The processing step of the worker\<close>

lemma retry_all_fail_any:
  assumes "\<forall>i\<le>nat (m - 1). isl (fn i)"
  shows "retry fn m d =
     (Inl (MaxRetriesError m (normalizeError (projl (fn (nat (m - 1)))))),
      \<lparr>calls = Suc (nat (m - 1)),
       sleeps = (if d > 0 then replicate (nat (m - 1)) d else [])\<rparr>)"
proof -
  let ?w = "\<lparr>calls = 0, sleeps = []\<rparr>"
  have "\<forall>i. calls ?w \<le> i \<and> i \<le> calls ?w + nat (m - 1) \<longrightarrow> isl (fn i)"
    using assms by simp
  then have "attempt fn m d 1 ?w =
     (Inl (MaxRetriesError m (normalizeError (projl (fn (calls ?w + nat (m - 1)))))),
      \<lparr>calls = calls ?w + nat (m - 1) + 1,
       sleeps = sleeps ?w @ (if d > 0 then replicate (nat (m - 1)) d else [])\<rparr>)"
    by (rule attempt_all_fail)
  then show ?thesis
    by (simp add: retry_def)
qed

lemma normalizeError_ThrownError: "normalizeError (ThrownError e) = e"
  by (simp add: normalizeError_def)

lemma processJob_failing:
  assumes acq: "acquireJob C (clock 0) db = (Inr a, db1)"
    and fail: "\<forall>k. isl (processor a k)"
    and K: "maxRetries options = K"
    and upd: "updateJobStateById C (job_id a) failed
                (Some (message (MaxRetriesError K (normalizeError (projl (processor a (nat (K - 1))))))))
                (clock 1) db1 = (Inr f, db2)"
  shows "processJob C processor options clock db =
     \<lparr>thrown_error = None, store = db2,
      emitted = [(WorkerEvents, Ev_activated a), (QueueEvents, Ev_activated a),
                 (WorkerEvents,
                  Ev_failed f (MaxRetriesError K (normalizeError (projl (processor a (nat (K - 1))))))),
                 (QueueEvents,
                  Ev_failed f (MaxRetriesError K (normalizeError (projl (processor a (nat (K - 1)))))))],
      effects = \<lparr>calls = Suc (nat (K - 1)),
                 sleeps = (if retryInterval options > 0
                           then replicate (nat (K - 1)) (retryInterval options) else [])\<rparr>\<rparr>"
proof -
  have "\<forall>i\<le>nat (K - 1). isl (processor a i)" using fail by simp
  from retry_all_fail_any [OF this, of "retryInterval options"]
  have r: "retry (processor a) K (retryInterval options) =
     (Inl (MaxRetriesError K (normalizeError (projl (processor a (nat (K - 1)))))),
      \<lparr>calls = Suc (nat (K - 1)),
       sleeps = (if retryInterval options > 0
                 then replicate (nat (K - 1)) (retryInterval options) else [])\<rparr>)" .
  show ?thesis
    using upd by (simp add: processJob_def acq K r Let_def normalizeError_ThrownError)
qed

lemma Mock_update_existing:
  assumes "find (\<lambda>j. job_id j = i) (jobs S) = Some r"
  shows "Mock_updateJobStateById i st (Some m) now S =
     (Inr (r\<lparr>state := st, errorMessage := Str m, updatedAt := now\<rparr>),
      S\<lparr>jobs := update_first (\<lambda>j. job_id j = i)
                  (\<lambda>j. j\<lparr>state := st, errorMessage := Str m, updatedAt := now\<rparr>) (jobs S)\<rparr>)"
    and "find (\<lambda>j. job_id j = i) (jobs (snd (Mock_updateJobStateById i st (Some m) now S)))
          = Some (r\<lparr>state := st, errorMessage := Str m, updatedAt := now\<rparr>)"
proof -
  show e: "Mock_updateJobStateById i st (Some m) now S =
     (Inr (r\<lparr>state := st, errorMessage := Str m, updatedAt := now\<rparr>),
      S\<lparr>jobs := update_first (\<lambda>j. job_id j = i)
                  (\<lambda>j. j\<lparr>state := st, errorMessage := Str m, updatedAt := now\<rparr>) (jobs S)\<rparr>)"
    by (simp add: Mock_updateJobStateById_def assms Let_def)
  from assms have "job_id r = i" using find_Some_in by fastforce
  then have "job_id (r\<lparr>state := st, errorMessage := Str m, updatedAt := now\<rparr>) = i" by simp
  with find_update_first [OF assms, of "\<lambda>j. j\<lparr>state := st, errorMessage := Str m, updatedAt := now\<rparr>"]
  show "find (\<lambda>j. job_id j = i) (jobs (snd (Mock_updateJobStateById i st (Some m) now S)))
          = Some (r\<lparr>state := st, errorMessage := Str m, updatedAt := now\<rparr>)"
    by (simp add: e)
qed

lemma max_retries_count: "nat (max 1 K) = Suc (nat (K - 1))"
  by simp

lemma MaxRetriesError_message_nonempty: "message (MaxRetriesError K e) \<noteq> []"
  by (simp add: MaxRetriesError_def)

lemma fails_after_retriesI:
  assumes "thrown_error R = None"
    and "calls (effects R) = Suc (nat (K - 1))"
    and "emitted R =
       [(WorkerEvents, Ev_activated (w\<lparr>state := active, errorMessage := Undefined, updatedAt := clock 0\<rparr>)),
        (QueueEvents, Ev_activated (w\<lparr>state := active, errorMessage := Undefined, updatedAt := clock 0\<rparr>)),
        (WorkerEvents, Ev_failed f e), (QueueEvents, Ev_failed f e)]"
    and "find (\<lambda>j. job_id j = job_id w) (stored (store R)) = Some f"
    and "e = MaxRetriesError K (normalizeError (projl (processor
              (w\<lparr>state := active, errorMessage := Undefined, updatedAt := clock 0\<rparr>) (nat (K - 1)))))"
    and "f = w\<lparr>state := failed, errorMessage := Str (message e), updatedAt := clock 1\<rparr>"
  shows "fails_after_retries w processor K clock stored R"
proof -
  have n: "nat (max 1 K) - 1 = nat (K - 1)" by simp
  have m: "message (MaxRetriesError K x) =
      ''Function failed after '' @ number_to_string K @ '' retries: '' @ message x" for x
    by (simp add: MaxRetriesError_def)
  show ?thesis
    unfolding fails_after_retries_def Let_def n max_retries_count
    using assms m by simp
qed

lemma Mock_processJob_failing:
  assumes d: "distinct (map job_id (jobs M))"
    and ex: "\<exists>j\<in>set (jobs M). state j = waiting \<and> job_id j \<notin> set (lockedJobsIds M)"
    and fail: "\<forall>j k. isl (processor j k)"
  shows "\<exists>w. least_waiting w (jobs M) (lockedJobsIds M)
     \<and> fails_after_retries w processor (maxRetries options) clock jobs
          (processJob MockDatabasePoolClient processor options clock M)"
proof -
  let ?K = "maxRetries options"
  from Mock_acquireJob_least [OF d ex, of "clock 0"] obtain w where
    w: "w \<in> set (jobs M)" "state w = waiting" "job_id w \<notin> set (lockedJobsIds M)"
    and le: "\<forall>j\<in>set (jobs M). state j = waiting \<and> job_id j \<notin> set (lockedJobsIds M)
               \<longrightarrow> compareJobs w j \<le> 0"
    and r: "fst (Mock_acquireJob (clock 0) M) =
             Inr (w\<lparr>state := active, errorMessage := Undefined, updatedAt := clock 0\<rparr>)"
       "find (\<lambda>j. job_id j = job_id w) (jobs (snd (Mock_acquireJob (clock 0) M))) =
             Some (w\<lparr>state := active, errorMessage := Undefined, updatedAt := clock 0\<rparr>)"
    by blast
  from d w le have lw: "least_waiting w (jobs M) (lockedJobsIds M)"
    by (rule least_waitingI)
  let ?a = "w\<lparr>state := active, errorMessage := Undefined, updatedAt := clock 0\<rparr>"
  let ?db1 = "snd (Mock_acquireJob (clock 0) M)"
  let ?e = "MaxRetriesError ?K (normalizeError (projl (processor ?a (nat (?K - 1)))))"
  let ?f = "w\<lparr>state := failed, errorMessage := Str (message ?e), updatedAt := clock 1\<rparr>"
  have acq: "acquireJob MockDatabasePoolClient (clock 0) M = (Inr ?a, ?db1)"
    using r(1) by (simp add: MockDatabasePoolClient_def prod_eq_iff)
  have fnd: "find (\<lambda>j. job_id j = job_id ?a) (jobs ?db1) = Some ?a"
    using r(2) by simp
  note u = Mock_update_existing [OF fnd, of failed "message ?e" "clock 1"]
  have upd: "updateJobStateById MockDatabasePoolClient (job_id ?a) failed (Some (message ?e))
               (clock 1) ?db1 = (Inr ?f, snd (Mock_updateJobStateById (job_id ?a) failed
                                   (Some (message ?e)) (clock 1) ?db1))"
    using u(1) by (simp add: MockDatabasePoolClient_def)
  have st: "find (\<lambda>j. job_id j = job_id w)
              (jobs (snd (Mock_updateJobStateById (job_id ?a) failed
                                   (Some (message ?e)) (clock 1) ?db1))) = Some ?f"
    using u(2) by simp
  have fa: "\<forall>k. isl (processor ?a k)" using fail by simp
  note p = processJob_failing
    [where C = MockDatabasePoolClient and clock = clock and options = options
       and processor = processor and K = ?K, OF acq fa refl upd]
  have "fails_after_retries w processor ?K clock jobs
          (processJob MockDatabasePoolClient processor options clock M)"
    by (rule fails_after_retriesI [where e = ?e and f = ?f]) (use p st in simp_all)
  with lw show ?thesis by blast
qed


lemma find_filter_singleton: "filter P xs = [x] \<Longrightarrow> find P xs = Some x"
  by (induction xs) (auto split: if_splits)

lemma or_undefined_Str: "m \<noteq> [] \<Longrightarrow> or_undefined (Str m) = Str m"
  by (simp add: or_undefined_def)

lemma PostgreSql_update_existing:
  assumes "select_by_id i T = [r]" and "m \<noteq> []"
  shows "PostgreSql_updateJobStateById i st (Some m) now T =
     (Inr (r\<lparr>state := st, errorMessage := Str m, updatedAt := now\<rparr>),
      snd (PostgreSql_updateJobStateById i st (Some m) now T))"
    and "find (\<lambda>j. job_id j = i) (rows (snd (PostgreSql_updateJobStateById i st (Some m) now T)))
          = Some (r\<lparr>state := st, errorMessage := Str m, updatedAt := now\<rparr>)"
proof -
  let ?upd = "\<lambda>x::'a Job. x\<lparr>state := st, errorMessage := Str m, updatedAt := now\<rparr>"
  have f: "filter (\<lambda>x. job_id x = i) (rows T) = [r]"
    using assms(1) by (simp add: select_by_id_def)
  have e: "PostgreSql_updateJobStateById i st (Some m) now T =
     (Inr (?upd r), T\<lparr>rows := map (\<lambda>x. if job_id x = i then ?upd x else x) (rows T)\<rparr>)"
    by (simp add: PostgreSql_updateJobStateById_def PostgreSql_update_returning_def Let_def f
          bind_parameter_def or_undefined_Str [OF assms(2)])
  then show "PostgreSql_updateJobStateById i st (Some m) now T =
     (Inr (?upd r), snd (PostgreSql_updateJobStateById i st (Some m) now T))"
    by simp
  have "filter (\<lambda>x. job_id x = i) (map (\<lambda>x. if job_id x = i then ?upd x else x) (rows T))
      = [?upd r]"
    using filter_after_update [of job_id ?upd i "rows T"] by (simp add: f)
  then have "find (\<lambda>x. job_id x = i) (map (\<lambda>x. if job_id x = i then ?upd x else x) (rows T))
      = Some (?upd r)"
    by (rule find_filter_singleton)
  then show "find (\<lambda>j. job_id j = i)
       (rows (snd (PostgreSql_updateJobStateById i st (Some m) now T))) = Some (?upd r)"
    by (simp add: e)
qed

lemma MySql_update_existing:
  assumes "select_by_id i T = [r]" and "m \<noteq> []" and "state r \<noteq> st"
  shows "MySql_updateJobStateById i st (Some m) now T =
     (Inr (r\<lparr>state := st, errorMessage := Str m, updatedAt := now\<rparr>),
      snd (MySql_updateJobStateById i st (Some m) now T))"
    and "find (\<lambda>j. job_id j = i) (rows (snd (MySql_updateJobStateById i st (Some m) now T)))
          = Some (r\<lparr>state := st, errorMessage := Str m, updatedAt := now\<rparr>)"
proof -
  let ?upd = "\<lambda>x::'a Job. x\<lparr>state := st, errorMessage := Str m, updatedAt := now\<rparr>"
  let ?T' = "MySql_update i st (Str m) now T"
  have f: "filter (\<lambda>x. job_id x = i) (rows T) = [r]"
    using assms(1) by (simp add: select_by_id_def)
  have sel: "select_by_id i ?T' = [?upd r]"
    unfolding MySql_update_select using assms(3) by (simp add: f)
  have e: "MySql_updateJobStateById i st (Some m) now T = (Inr (?upd r), ?T')"
    by (simp add: MySql_updateJobStateById_def Let_def bind_parameter_def sel
          or_undefined_Str [OF assms(2)])
  then show "MySql_updateJobStateById i st (Some m) now T =
     (Inr (?upd r), snd (MySql_updateJobStateById i st (Some m) now T))"
    by simp
  from sel have "find (\<lambda>x. job_id x = i) (rows ?T') = Some (?upd r)"
    unfolding select_by_id_def by (rule find_filter_singleton)
  then show "find (\<lambda>j. job_id j = i)
       (rows (snd (MySql_updateJobStateById i st (Some m) now T))) = Some (?upd r)"
    by (simp add: e)
qed

lemma select_after_acquire:
  assumes d: "distinct (map job_id (rows T))" and win: "w \<in> set (rows T)"
  shows "select_by_id (job_id w)
           (T\<lparr>rows := map (\<lambda>r. if job_id r = job_id w
                                then r\<lparr>state := active, errorMessage := Null, updatedAt := now\<rparr>
                                else r) (rows T),
              txn := None\<rparr>)
         = [w\<lparr>state := active, errorMessage := Null, updatedAt := now\<rparr>]"
proof -
  let ?upd = "\<lambda>r::'a Job. r\<lparr>state := active, errorMessage := Null, updatedAt := now\<rparr>"
  have f: "filter (\<lambda>r. job_id r = job_id w) (rows T) = [w]"
    using d win by (rule filter_by_key_distinct)
  show ?thesis
    using filter_after_update [of job_id ?upd "job_id w" "rows T"]
    by (simp add: select_by_id_def f)
qed

lemma Sql_processJob_failing:
  assumes d: "distinct (map job_id (rows T))"
    and ex: "\<exists>j\<in>set (rows T). state j = waiting \<and> job_id j \<notin> set (rowLocks T)"
    and fail: "\<forall>j k. isl (processor j k)"
  shows "\<exists>w. least_waiting w (rows T) (rowLocks T)
     \<and> fails_after_retries w processor (maxRetries options) clock rows
          (processJob PostgreSqlPoolClient processor options clock T)
     \<and> fails_after_retries w processor (maxRetries options) clock rows
          (processJob MySqlPoolClient processor options clock T)"
proof -
  let ?K = "maxRetries options"
  let ?upd = "\<lambda>r::'a Job. r\<lparr>state := active, errorMessage := Null, updatedAt := clock 0\<rparr>"
  from PostgreSql_acquireJob_least [OF d ex, of "clock 0"] obtain w where
    lw: "least_waiting w (rows T) (rowLocks T)"
    and pg: "PostgreSql_acquireJob (clock 0) T =
         (Inr (w\<lparr>state := active, errorMessage := Undefined, updatedAt := clock 0\<rparr>),
          T\<lparr>rows := map (\<lambda>r. if job_id r = job_id w then ?upd r else r) (rows T),
            txn := None\<rparr>)"
    by blast
  from MySql_acquireJob_least [OF d ex, of "clock 0"] obtain w' where
    lw': "least_waiting w' (rows T) (rowLocks T)"
    and my': "MySql_acquireJob (clock 0) T =
         (Inr (w'\<lparr>state := active, errorMessage := Undefined, updatedAt := clock 0\<rparr>),
          T\<lparr>rows := map (\<lambda>r. if job_id r = job_id w' then ?upd r else r) (rows T),
            txn := None\<rparr>)"
    by blast
  have "w' = w"
  proof (rule ccontr)
    assume n: "w' \<noteq> w"
    with lw lw' have "compareJobs w w' < 0" and "compareJobs w' w < 0"
      by (auto simp: least_waiting_def)
    then show False by (auto simp: compareJobs_def split: if_splits)
  qed
  with my' have my: "MySql_acquireJob (clock 0) T =
         (Inr (w\<lparr>state := active, errorMessage := Undefined, updatedAt := clock 0\<rparr>),
          T\<lparr>rows := map (\<lambda>r. if job_id r = job_id w then ?upd r else r) (rows T),
            txn := None\<rparr>)"
    by simp
  from lw have win: "w \<in> set (rows T)" by (simp add: least_waiting_def)
  let ?a = "w\<lparr>state := active, errorMessage := Undefined, updatedAt := clock 0\<rparr>"
  let ?T1 = "T\<lparr>rows := map (\<lambda>r. if job_id r = job_id w then ?upd r else r) (rows T),
               txn := None\<rparr>"
  let ?e = "MaxRetriesError ?K (normalizeError (projl (processor ?a (nat (?K - 1)))))"
  let ?f = "w\<lparr>state := failed, errorMessage := Str (message ?e), updatedAt := clock 1\<rparr>"
  have sel: "select_by_id (job_id ?a) ?T1 = [?upd w]"
    using select_after_acquire [OF d win, of "clock 0"] by simp
  have ne: "message ?e \<noteq> []" by (rule MaxRetriesError_message_nonempty)
  have fa: "\<forall>k. isl (processor ?a k)" using fail by simp
  have st: "state (?upd w) \<noteq> failed" by simp
  have fe: "(?upd w)\<lparr>state := failed, errorMessage := Str (message ?e), updatedAt := clock 1\<rparr> = ?f"
    by simp
  \<comment> \<open>PostgreSQL\<close>
  note u = PostgreSql_update_existing [OF sel ne, of failed "clock 1", unfolded fe]
  have acq: "acquireJob PostgreSqlPoolClient (clock 0) T = (Inr ?a, ?T1)"
    using pg by (simp add: PostgreSqlPoolClient_def)
  have upd: "updateJobStateById PostgreSqlPoolClient (job_id ?a) failed (Some (message ?e))
               (clock 1) ?T1 =
             (Inr ?f, snd (PostgreSql_updateJobStateById (job_id ?a) failed (Some (message ?e))
                             (clock 1) ?T1))"
    using u(1) by (simp add: PostgreSqlPoolClient_def)
  note p = processJob_failing
    [where C = PostgreSqlPoolClient and clock = clock and options = options
       and processor = processor and K = ?K, OF acq fa refl upd]
  have 1: "fails_after_retries w processor ?K clock rows
          (processJob PostgreSqlPoolClient processor options clock T)"
    by (rule fails_after_retriesI [where e = ?e and f = ?f]) (use p u(2) in simp_all)
  \<comment> \<open>MySQL\<close>
  note u' = MySql_update_existing [OF sel ne st, of "clock 1", unfolded fe]
  have acq': "acquireJob MySqlPoolClient (clock 0) T = (Inr ?a, ?T1)"
    using my by (simp add: MySqlPoolClient_def)
  have upd': "updateJobStateById MySqlPoolClient (job_id ?a) failed (Some (message ?e))
               (clock 1) ?T1 =
             (Inr ?f, snd (MySql_updateJobStateById (job_id ?a) failed (Some (message ?e))
                             (clock 1) ?T1))"
    using u'(1) by (simp add: MySqlPoolClient_def)
  note p' = processJob_failing
    [where C = MySqlPoolClient and clock = clock and options = options
       and processor = processor and K = ?K, OF acq' fa refl upd']
  have 2: "fails_after_retries w processor ?K clock rows
          (processJob MySqlPoolClient processor options clock T)"
    by (rule fails_after_retriesI [where e = ?e and f = ?f]) (use p' u'(2) in simp_all)
  from lw 1 2 show ?thesis by blast
qed


lemma sample_zero_retries:
  "calls (effects (processJob MockDatabasePoolClient always_boom
                     (defaultOptions\<lparr>maxRetries := 0\<rparr>) sample_clock sample_mock)) = 1"
  by code_simp

lemma sample_failed_step:
  "calls (effects (processJob MockDatabasePoolClient always_boom defaultOptions
                     sample_clock sample_mock)) = 3"
  "find (\<lambda>j. job_id j = 2)
     (jobs (store (processJob MockDatabasePoolClient always_boom defaultOptions
                     sample_clock sample_mock))) =
     Some \<lparr>job_id = 2, payload = (), state = failed, priority = 5,
           errorMessage = Str ''Function failed after 3 retries: boom'',
           createdAt = 1010, updatedAt = 2001\<rparr>"
  by code_simp+

text \<open>
  Claim C5 says that the processor is invoked exactly \<open>K = maxRetries\<close> times. With
  \<open>maxRetries = 0\<close> and a processor that always throws, the processor is invoked once:
  \<open>retry\<close> makes the first attempt before it looks at the limit.
\<close>

theorem processor_invoked_maxRetries_times_counterexample:
  "maxRetries (defaultOptions\<lparr>maxRetries := 0\<rparr>) = 0
   \<and> calls (effects (processJob MockDatabasePoolClient always_boom
                       (defaultOptions\<lparr>maxRetries := 0\<rparr>) sample_clock sample_mock)) = 1
   \<and> always_boom (sample_job 2 active 5 1010 Undefined) 0 = Inl (ThrownError (new_Error ''boom''))"
  by (simp add: sample_zero_retries always_boom_def)

text \<open>
  Claim C5, amended. Let the processor throw on every attempt and let the collection
  (distinct ids) hold a waiting, unlocked job. Then the worker's processing step, on
  the mock, the PostgreSQL and the MySQL client, leases the least waiting job \<open>w\<close> and
  leaves it in state \<open>failed\<close> with \<open>errorMessage\<close> equal to
  \<open>"Function failed after K retries: "\<close> followed by the processor's last error message,
  for \<open>K = maxRetries\<close>; the processor is invoked exactly \<open>max 1 K\<close> times (\<open>K\<close> times when
  \<open>K \<ge> 1\<close>); and the \<open>failed\<close> event is emitted after \<open>activated\<close>, carrying that job and
  that error.
\<close>

theorem worker_fails_job_after_retries:
  "(distinct (map job_id (jobs M))
      \<and> (\<exists>j\<in>set (jobs M). state j = waiting \<and> job_id j \<notin> set (lockedJobsIds M))
      \<and> (\<forall>j k. isl (processor j k)) \<longrightarrow>
     (\<exists>w. least_waiting w (jobs M) (lockedJobsIds M)
        \<and> fails_after_retries w processor (maxRetries options) clock jobs
             (processJob MockDatabasePoolClient processor options clock M)))
   \<and> (distinct (map job_id (rows T))
      \<and> (\<exists>j\<in>set (rows T). state j = waiting \<and> job_id j \<notin> set (rowLocks T))
      \<and> (\<forall>j k. isl (processor j k)) \<longrightarrow>
     (\<exists>w. least_waiting w (rows T) (rowLocks T)
        \<and> fails_after_retries w processor (maxRetries options) clock rows
             (processJob PostgreSqlPoolClient processor options clock T)
        \<and> fails_after_retries w processor (maxRetries options) clock rows
             (processJob MySqlPoolClient processor options clock T)))"
proof (intro conjI impI)
  assume "distinct (map job_id (jobs M))
      \<and> (\<exists>j\<in>set (jobs M). state j = waiting \<and> job_id j \<notin> set (lockedJobsIds M))
      \<and> (\<forall>j k. isl (processor j k))"
  then show "\<exists>w. least_waiting w (jobs M) (lockedJobsIds M)
        \<and> fails_after_retries w processor (maxRetries options) clock jobs
             (processJob MockDatabasePoolClient processor options clock M)"
    by (intro Mock_processJob_failing) simp_all
next
  assume "distinct (map job_id (rows T))
      \<and> (\<exists>j\<in>set (rows T). state j = waiting \<and> job_id j \<notin> set (rowLocks T))
      \<and> (\<forall>j k. isl (processor j k))"
  then show "\<exists>w. least_waiting w (rows T) (rowLocks T)
        \<and> fails_after_retries w processor (maxRetries options) clock rows
             (processJob PostgreSqlPoolClient processor options clock T)
        \<and> fails_after_retries w processor (maxRetries options) clock rows
             (processJob MySqlPoolClient processor options clock T)"
    by (intro Sql_processJob_failing) simp_all
qed

theorem worker_fails_job_after_retries_witness:
  "(\<exists>w. least_waiting w (jobs sample_mock) (lockedJobsIds sample_mock)
        \<and> fails_after_retries w always_boom (maxRetries defaultOptions) sample_clock jobs
             (processJob MockDatabasePoolClient always_boom defaultOptions sample_clock sample_mock))
   \<and> (\<exists>w. least_waiting w (rows sample_table) (rowLocks sample_table)
        \<and> fails_after_retries w always_boom (maxRetries defaultOptions) sample_clock rows
             (processJob PostgreSqlPoolClient always_boom defaultOptions sample_clock sample_table)
        \<and> fails_after_retries w always_boom (maxRetries defaultOptions) sample_clock rows
             (processJob MySqlPoolClient always_boom defaultOptions sample_clock sample_table))
   \<and> calls (effects (processJob MockDatabasePoolClient always_boom defaultOptions
                     sample_clock sample_mock)) = 3
   \<and> find (\<lambda>j. job_id j = 2)
        (jobs (store (processJob MockDatabasePoolClient always_boom defaultOptions
                     sample_clock sample_mock))) =
       Some \<lparr>job_id = 2, payload = (), state = failed, priority = 5,
           errorMessage = Str ''Function failed after 3 retries: boom'',
           createdAt = 1010, updatedAt = 2001\<rparr>"
proof -
  have h1: "distinct (map job_id (jobs sample_mock))
      \<and> (\<exists>j\<in>set (jobs sample_mock). state j = waiting \<and> job_id j \<notin> set (lockedJobsIds sample_mock))
      \<and> (\<forall>j k. isl (always_boom j k))"
    by (simp add: sample_mock_def sample_job_def always_boom_def)
  have h2: "distinct (map job_id (rows sample_table))
      \<and> (\<exists>j\<in>set (rows sample_table). state j = waiting \<and> job_id j \<notin> set (rowLocks sample_table))
      \<and> (\<forall>j k. isl (always_boom j k))"
    by (simp add: sample_table_def sample_job_def always_boom_def)
  from worker_fails_job_after_retries
         [of sample_mock always_boom defaultOptions sample_clock sample_table] h1 h2
  show ?thesis
    by (simp only: sample_failed_step simp_thms)
qed


end
